theory Spec2Isabelle
  imports Complex_Main "HOL-Library.Sublist"
begin

section \<open>Data model (constants/types.ts)\<close>

text \<open>
  JavaScript numbers are modelled as real numbers: prices, coordinates and distances are
  the source's formulas read over \<open>\<real>\<close>, so rounding and the \<open>NaN\<close> of IEEE doubles are
  outside this part of the model (the distance of two nearly antipodal points, which the
  program can compute as \<open>NaN\<close>, is a number here). Where the source produces \<open>Infinity\<close> on purpose (the
  sort comparator), the type \<open>jsnum\<close> makes it explicit. A \<open>Date\<close> is its \<open>getTime()\<close>
  value, milliseconds since the epoch.
\<close>

type_synonym Date = int

datatype UserRole = USER | HOMEOWNER

record User =
  uid :: string
  email :: string
  name :: string
  role :: UserRole
  photoURL :: "string option"
  phone :: "string option"
  user_createdAt :: Date
  user_updatedAt :: Date

record Location =
  latitude :: real
  longitude :: real
  address :: "string option"
  city :: "string option"
  state :: "string option"
  zipCode :: "string option"

record DaySlot =
  slot_start :: string
  slot_end :: string
  available :: bool

record AvailabilitySchedule =
  monday :: DaySlot
  tuesday :: DaySlot
  wednesday :: DaySlot
  thursday :: DaySlot
  friday :: DaySlot
  saturday :: DaySlot
  sunday :: DaySlot

datatype SpotType = DRIVEWAY | GARAGE | CARPORT | STREET | LOT | OTHER

text \<open>The string value of each member of the TypeScript enum \<open>SpotType\<close>.\<close>

fun SpotType_value :: "SpotType \<Rightarrow> string" where
  "SpotType_value DRIVEWAY = ''driveway''"
| "SpotType_value GARAGE = ''garage''"
| "SpotType_value CARPORT = ''carport''"
| "SpotType_value STREET = ''street''"
| "SpotType_value LOT = ''lot''"
| "SpotType_value OTHER = ''other''"

datatype Amenity =
  COVERED | GATED | WELL_LIT | SECURITY_CAMERA | EV_CHARGING | HANDICAP_ACCESSIBLE
  | WIDE_SPACE | NEARBY_RESTROOM

text \<open>
  \<open>ParkingSpot\<close>: the field \<open>id\<close> of the source is \<open>spot_id\<close> here (\<open>id\<close> is the identity
  function of HOL).
\<close>

record ParkingSpot =
  spot_id :: string
  ownerId :: string
  ownerName :: string
  title :: string
  description :: string
  location :: Location
  pricePerHour :: real
  pricePerDay :: "real option"
  imageURLs :: "string list"
  isAvailable :: bool
  availabilitySchedule :: "AvailabilitySchedule option"
  spotType :: SpotType
  amenities :: "Amenity list"
  rating :: "real option"
  reviewCount :: "nat option"
  createdAt :: Date
  updatedAt :: Date

text \<open>
  \<open>Partial<ParkingSpot>\<close>: every field may be absent.
\<close>

record SpotPartial =
  p_id :: "string option"
  p_ownerId :: "string option"
  p_ownerName :: "string option"
  p_title :: "string option"
  p_description :: "string option"
  p_location :: "Location option"
  p_pricePerHour :: "real option"
  p_pricePerDay :: "real option"
  p_imageURLs :: "string list option"
  p_isAvailable :: "bool option"
  p_availabilitySchedule :: "AvailabilitySchedule option"
  p_spotType :: "SpotType option"
  p_amenities :: "Amenity list option"
  p_rating :: "real option"
  p_reviewCount :: "nat option"
  p_createdAt :: "Date option"
  p_updatedAt :: "Date option"

text \<open>
  The data of a document of the collection \<open>parkingSpots\<close>, as \<open>convertDocToSpot\<close> reads
  it (\<open>data: any\<close>). The fields that every write of this client sets are present; the
  fields the converter defaults, the optional fields of \<open>ParkingSpot\<close>, and a stored field
  called \<open>id\<close> (which no write of this client sets, and which the converter never reads:
  the identifier is the document's key) may be absent.
\<close>

record DocData =
  d_id :: "string option"
  d_ownerId :: string
  d_ownerName :: string
  d_title :: string
  d_description :: string
  d_location :: Location
  d_pricePerHour :: real
  d_pricePerDay :: "real option"
  d_imageURLs :: "string list option"
  d_isAvailable :: "bool option"
  d_availabilitySchedule :: "AvailabilitySchedule option"
  d_spotType :: SpotType
  d_amenities :: "Amenity list option"
  d_rating :: "real option"
  d_reviewCount :: "nat option"
  d_createdAt :: "Date option"
  d_updatedAt :: "Date option"

text \<open>The data of a document of the collection \<open>users\<close>, as \<open>getUserData\<close> reads it.\<close>

record UserDoc =
  ud_email :: string
  ud_name :: string
  ud_role :: UserRole
  ud_photoURL :: "string option"
  ud_phone :: "string option"
  ud_createdAt :: "Date option"
  ud_updatedAt :: "Date option"

text \<open>A JavaScript \<open>Error\<close>: its \<open>code\<close> (absent on a plain \<open>new Error\<close>) and its message.\<close>

datatype JsError = JsError (err_code: "string option") (err_message: string)

abbreviation Error :: "string \<Rightarrow> JsError" where
  "Error msg \<equiv> JsError None msg"

section \<open>GeoMath: great-circle distance (services/parkingSpots.ts)\<close>

definition toRad :: "real \<Rightarrow> real" where
  "toRad deg = deg * (pi / 180)"

text \<open>\<open>Math.atan2(y, x)\<close>, by the quadrant of \<open>(x, y)\<close>.\<close>

definition atan2 :: "real \<Rightarrow> real \<Rightarrow> real" where
  "atan2 y x =
     (if 0 < x then arctan (y / x)
      else if x < 0 then (if 0 \<le> y then arctan (y / x) + pi else arctan (y / x) - pi)
      else if 0 < y then pi / 2
      else if y < 0 then - (pi / 2)
      else 0)"

definition calculateDistance :: "real \<Rightarrow> real \<Rightarrow> real \<Rightarrow> real \<Rightarrow> real" where
  "calculateDistance lat1 lon1 lat2 lon2 =
     (let R = 6371;
          dLat = toRad (lat2 - lat1);
          dLon = toRad (lon2 - lon1);
          a = sin (dLat / 2) * sin (dLat / 2) +
              cos (toRad lat1) * cos (toRad lat2) *
              sin (dLon / 2) * sin (dLon / 2);
          c = 2 * atan2 (sqrt a) (sqrt (1 - a))
      in R * c)"

text \<open>
  The helper of the same name in \<open>LocationContext\<close>: the distance from the user's location
  to a spot, \<open>null\<close> while the user's location is unknown.
\<close>

definition LocationContext_calculateDistance :: "Location option \<Rightarrow> Location \<Rightarrow> real option" where
  "LocationContext_calculateDistance userLocation spot =
     (case userLocation of
        None \<Rightarrow> None
      | Some u \<Rightarrow> Some (calculateDistance (latitude u) (longitude u) (latitude spot) (longitude spot)))"

section \<open>SearchFilterEngine (screens/Search/SearchScreen.tsx)\<close>

subsection \<open>Strings\<close>

text \<open>
  Strings are lists of 8-bit characters; \<open>toLowerCase\<close> and \<open>trim\<close> are modelled on ASCII:
  \<open>trim\<close> removes the ASCII white space only, \<open>toLowerCase\<close> maps \<open>A\<close> to \<open>Z\<close> only. For
  strings with other Unicode white space or letters the program does more than the model.
\<close>

definition isWhiteSpace :: "char \<Rightarrow> bool" where
  "isWhiteSpace c = (of_char c \<in> {9, 10, 11, 12, 13, 32 :: nat})"

definition trim :: "string \<Rightarrow> string" where
  "trim s = rev (dropWhile isWhiteSpace (rev (dropWhile isWhiteSpace s)))"

definition toLowerChar :: "char \<Rightarrow> char" where
  "toLowerChar c =
     (let n = of_char c :: nat in if 65 \<le> n \<and> n \<le> 90 then char_of (n + 32) else c)"

definition toLowerCase :: "string \<Rightarrow> string" where
  "toLowerCase s = map toLowerChar s"

text \<open>\<open>s.includes(q)\<close>: \<open>q\<close> occurs in \<open>s\<close> as a contiguous substring.\<close>

fun String_includes :: "string \<Rightarrow> string \<Rightarrow> bool" where
  "String_includes [] q = (q = [])"
| "String_includes (c # cs) q = (prefix q (c # cs) \<or> String_includes cs q)"

text \<open>\<open>s?.toLowerCase().includes(q)\<close> on an optional string: \<open>undefined\<close>, hence falsy, when absent.\<close>

definition optIncludes :: "string option \<Rightarrow> string \<Rightarrow> bool" where
  "optIncludes s q = (case s of None \<Rightarrow> False | Some t \<Rightarrow> String_includes (toLowerCase t) q)"

subsection \<open>Numbers with infinities, and \<open>Array.prototype.sort\<close>\<close>

datatype jsnum = Num real | PosInf | NegInf | NaN

fun js_minus :: "jsnum \<Rightarrow> jsnum \<Rightarrow> jsnum" where
  "js_minus (Num a) (Num b) = Num (a - b)"
| "js_minus NaN _ = NaN"
| "js_minus _ NaN = NaN"
| "js_minus PosInf PosInf = NaN"
| "js_minus NegInf NegInf = NaN"
| "js_minus PosInf _ = PosInf"
| "js_minus NegInf _ = NegInf"
| "js_minus (Num a) PosInf = NegInf"
| "js_minus (Num a) NegInf = PosInf"

text \<open>\<open>d || Infinity\<close> on \<open>number | null\<close>: \<open>null\<close> and \<open>0\<close> are falsy.\<close>

definition orInfinity :: "real option \<Rightarrow> jsnum" where
  "orInfinity d = (case d of None \<Rightarrow> PosInf | Some r \<Rightarrow> if r = 0 then PosInf else Num r)"

text \<open>\<open>r || 0\<close> on an optional number.\<close>

definition orZero :: "real option \<Rightarrow> real" where
  "orZero r = (case r of None \<Rightarrow> 0 | Some v \<Rightarrow> if v = 0 then 0 else v)"

text \<open>
  \<open>Array.prototype.sort(cmp)\<close> is stable, and places \<open>a\<close> after \<open>b\<close> only when \<open>cmp(a, b) > 0\<close>
  (a \<open>NaN\<close> result counts as \<open>0\<close>). It is modelled by stable insertion from the right; for
  the comparators of this program, which compare a key of each element, every stable sort
  gives this result.
\<close>

fun isPositive :: "jsnum \<Rightarrow> bool" where
  "isPositive (Num r) = (0 < r)"
| "isPositive PosInf = True"
| "isPositive NegInf = False"
| "isPositive NaN = False"

fun insertSorted :: "('a \<Rightarrow> 'a \<Rightarrow> jsnum) \<Rightarrow> 'a \<Rightarrow> 'a list \<Rightarrow> 'a list" where
  "insertSorted cmp x [] = [x]"
| "insertSorted cmp x (y # ys) =
     (if isPositive (cmp x y) then y # insertSorted cmp x ys else x # y # ys)"

definition Array_sort :: "('a \<Rightarrow> 'a \<Rightarrow> jsnum) \<Rightarrow> 'a list \<Rightarrow> 'a list" where
  "Array_sort cmp xs = foldr (insertSorted cmp) xs []"

subsection \<open>The filter and sort pipeline\<close>

datatype SortBy = Distance | Price | Rating

text \<open>The predicate of the search-query stage.\<close>

definition matchesQuery :: "string \<Rightarrow> ParkingSpot \<Rightarrow> bool" where
  "matchesQuery query spot =
     (String_includes (toLowerCase (title spot)) query \<or>
      String_includes (toLowerCase (description spot)) query \<or>
      optIncludes (address (location spot)) query \<or>
      optIncludes (city (location spot)) query)"

text \<open>The predicate of the distance stage.\<close>

definition withinDistance :: "Location option \<Rightarrow> real \<Rightarrow> ParkingSpot \<Rightarrow> bool" where
  "withinDistance userLocation maxDistance spot =
     (case LocationContext_calculateDistance userLocation (location spot) of
        None \<Rightarrow> False
      | Some distance \<Rightarrow> distance \<le> maxDistance)"

text \<open>The comparator passed to \<open>results.sort\<close>.\<close>

definition compareSpots :: "SortBy \<Rightarrow> Location option \<Rightarrow> ParkingSpot \<Rightarrow> ParkingSpot \<Rightarrow> jsnum" where
  "compareSpots sortBy userLocation a b =
     (case sortBy of
        Price \<Rightarrow> Num (pricePerHour a - pricePerHour b)
      | Rating \<Rightarrow> Num (orZero (rating b) - orZero (rating a))
      | Distance \<Rightarrow>
          if userLocation = None then Num 0
          else
            let distA = orInfinity (LocationContext_calculateDistance userLocation (location a));
                distB = orInfinity (LocationContext_calculateDistance userLocation (location b))
            in js_minus distA distB)"

definition filteredSpots ::
  "ParkingSpot list \<Rightarrow> Location option \<Rightarrow> string \<Rightarrow> real \<Rightarrow> real \<Rightarrow> string list \<Rightarrow> SortBy
     \<Rightarrow> ParkingSpot list" where
  "filteredSpots spots userLocation searchQuery maxPrice maxDistance selectedSpotTypes sortBy =
     (let results = spots;
          results =
            (if trim searchQuery \<noteq> [] then
               let query = toLowerCase searchQuery in filter (matchesQuery query) results
             else results);
          results = filter (\<lambda>spot. pricePerHour spot \<le> maxPrice) results;
          results =
            (if userLocation \<noteq> None then
               filter (withinDistance userLocation maxDistance) results
             else results);
          results =
            (if ''all'' \<notin> set selectedSpotTypes then
               filter (\<lambda>spot. SpotType_value (spotType spot) \<in> set selectedSpotTypes) results
             else results)
      in Array_sort (compareSpots sortBy userLocation) results)"

text \<open>The distance from a known origin to a listing, for stating properties of the order.\<close>

definition distanceFrom :: "Location \<Rightarrow> ParkingSpot \<Rightarrow> real" where
  "distanceFrom u spot =
     calculateDistance (latitude u) (longitude u) (latitude (location spot)) (longitude (location spot))"

section \<open>The external gateways (Firestore, Storage, Auth)\<close>

text \<open>
  The state of the backend and of the console. Each call of a gateway is appended to
  \<open>calls\<close>, in the order in which the client issues it (an update with the payload it
  sends). A gateway call can fail for reasons outside the client (network, access rules):
  each operation takes the fault, if any, that the call meets.
\<close>

datatype GatewayCall =
    DeleteDoc string
  | UpdateDoc string SpotPartial
  | GetUserDoc string
  | SetUserDoc string
  | ListAll string
  | DeleteObject string
  | SignInWithEmailAndPassword string
  | AuthSignOut

record World =
  parkingSpotsCol :: "string \<rightharpoonup> DocData"
  usersCol :: "string \<rightharpoonup> UserDoc"
  storageObjects :: "string list"
  calls :: "GatewayCall list"
  console :: "string list"

definition issue :: "GatewayCall \<Rightarrow> World \<Rightarrow> World" where
  "issue c w = w\<lparr>calls := calls w @ [c]\<rparr>"

definition consoleLog :: "string \<Rightarrow> World \<Rightarrow> World" where
  "consoleLog msg w = w\<lparr>console := console w @ [msg]\<rparr>"

subsection \<open>Firestore\<close>

text \<open>\<open>deleteDoc\<close>: deleting a document that does not exist succeeds.\<close>

definition deleteDoc :: "JsError option \<Rightarrow> string \<Rightarrow> World \<Rightarrow> (JsError + unit) \<times> World" where
  "deleteDoc fault spotId w =
     (let w1 = issue (DeleteDoc spotId) w in
      case fault of
        Some e \<Rightarrow> (Inl e, w1)
      | None \<Rightarrow> (Inr (), w1\<lparr>parkingSpotsCol := (parkingSpotsCol w1)(spotId := None)\<rparr>))"

text \<open>
  What \<open>updateDoc\<close> does to the stored data: every field present in the payload replaces
  the stored one, every other field stays.
\<close>

definition ifPresent :: "'a option \<Rightarrow> 'a \<Rightarrow> 'a" where
  "ifPresent new old = (case new of None \<Rightarrow> old | Some v \<Rightarrow> v)"

definition ifPresentOpt :: "'a option \<Rightarrow> 'a option \<Rightarrow> 'a option" where
  "ifPresentOpt new old = (case new of None \<Rightarrow> old | Some v \<Rightarrow> Some v)"

definition applyPayload :: "SpotPartial \<Rightarrow> DocData \<Rightarrow> DocData" where
  "applyPayload payload d =
     \<lparr> d_id = ifPresentOpt (p_id payload) (d_id d),
       d_ownerId = ifPresent (p_ownerId payload) (d_ownerId d),
       d_ownerName = ifPresent (p_ownerName payload) (d_ownerName d),
       d_title = ifPresent (p_title payload) (d_title d),
       d_description = ifPresent (p_description payload) (d_description d),
       d_location = ifPresent (p_location payload) (d_location d),
       d_pricePerHour = ifPresent (p_pricePerHour payload) (d_pricePerHour d),
       d_pricePerDay = ifPresentOpt (p_pricePerDay payload) (d_pricePerDay d),
       d_imageURLs = ifPresentOpt (p_imageURLs payload) (d_imageURLs d),
       d_isAvailable = ifPresentOpt (p_isAvailable payload) (d_isAvailable d),
       d_availabilitySchedule =
         ifPresentOpt (p_availabilitySchedule payload) (d_availabilitySchedule d),
       d_spotType = ifPresent (p_spotType payload) (d_spotType d),
       d_amenities = ifPresentOpt (p_amenities payload) (d_amenities d),
       d_rating = ifPresentOpt (p_rating payload) (d_rating d),
       d_reviewCount = ifPresentOpt (p_reviewCount payload) (d_reviewCount d),
       d_createdAt = ifPresentOpt (p_createdAt payload) (d_createdAt d),
       d_updatedAt = ifPresentOpt (p_updatedAt payload) (d_updatedAt d) \<rparr>"

text \<open>\<open>updateDoc\<close>: fails with \<open>not-found\<close> when the document does not exist.\<close>

definition updateDoc ::
  "JsError option \<Rightarrow> string \<Rightarrow> SpotPartial \<Rightarrow> World \<Rightarrow> (JsError + unit) \<times> World" where
  "updateDoc fault spotId payload w =
     (let w1 = issue (UpdateDoc spotId payload) w in
      case fault of
        Some e \<Rightarrow> (Inl e, w1)
      | None \<Rightarrow>
          (case parkingSpotsCol w1 spotId of
             None \<Rightarrow> (Inl (JsError (Some ''not-found'') ''No document to update''), w1)
           | Some d \<Rightarrow>
               (Inr (), w1\<lparr>parkingSpotsCol := (parkingSpotsCol w1)(spotId \<mapsto> applyPayload payload d)\<rparr>)))"

definition getUserDoc :: "JsError option \<Rightarrow> string \<Rightarrow> World \<Rightarrow> (JsError + UserDoc option) \<times> World" where
  "getUserDoc fault userId w =
     (let w1 = issue (GetUserDoc userId) w in
      case fault of
        Some e \<Rightarrow> (Inl e, w1)
      | None \<Rightarrow> (Inr (usersCol w1 userId), w1))"

text \<open>\<open>setDoc\<close> without \<open>merge\<close>: the document is created or replaced.\<close>

definition setUserDoc ::
  "JsError option \<Rightarrow> string \<Rightarrow> UserDoc \<Rightarrow> World \<Rightarrow> (JsError + unit) \<times> World" where
  "setUserDoc fault userId d w =
     (let w1 = issue (SetUserDoc userId) w in
      case fault of
        Some e \<Rightarrow> (Inl e, w1)
      | None \<Rightarrow> (Inr (), w1\<lparr>usersCol := (usersCol w1)(userId \<mapsto> d)\<rparr>))"

subsection \<open>Storage (services/storage.ts)\<close>

text \<open>\<open>listAll(folderRef)\<close>: the objects directly under the folder's path.\<close>

definition listAll :: "JsError option \<Rightarrow> string \<Rightarrow> World \<Rightarrow> (JsError + string list) \<times> World" where
  "listAll fault folder w =
     (let w1 = issue (ListAll folder) w in
      case fault of
        Some e \<Rightarrow> (Inl e, w1)
      | None \<Rightarrow> (Inr (filter (prefix (folder @ ''/'')) (storageObjects w1)), w1))"

text \<open>\<open>deleteObject\<close>: fails when the object is not there.\<close>

definition deleteObject :: "JsError option \<Rightarrow> string \<Rightarrow> World \<Rightarrow> (JsError + unit) \<times> World" where
  "deleteObject fault path w =
     (let w1 = issue (DeleteObject path) w in
      case fault of
        Some e \<Rightarrow> (Inl e, w1)
      | None \<Rightarrow>
          if path \<in> set (storageObjects w1) then
            (Inr (), w1\<lparr>storageObjects := filter (\<lambda>p. p \<noteq> path) (storageObjects w1)\<rparr>)
          else (Inl (JsError (Some ''storage/object-not-found'') ''Object does not exist''), w1))"

text \<open>
  \<open>Promise.all(items.map(deleteObject))\<close>: every deletion is issued; the result is the
  first failure, if any.
\<close>

fun deleteAll ::
  "(string \<Rightarrow> JsError option) \<Rightarrow> string list \<Rightarrow> World \<Rightarrow> (JsError + unit) \<times> World" where
  "deleteAll deleteFault [] w = (Inr (), w)"
| "deleteAll deleteFault (item # items) w =
     (case deleteObject (deleteFault item) item w of
        (r, w1) \<Rightarrow>
          (case deleteAll deleteFault items w1 of
             (rs, w2) \<Rightarrow> ((case r of Inl e \<Rightarrow> Inl e | Inr u \<Rightarrow> rs), w2)))"

definition deleteParkingSpotImages ::
  "JsError option \<Rightarrow> (string \<Rightarrow> JsError option) \<Rightarrow> string \<Rightarrow> World \<Rightarrow> (JsError + unit) \<times> World" where
  "deleteParkingSpotImages listFault deleteFault spotId w =
     (case listAll listFault (''parkingSpots/'' @ spotId) w of
        (Inl e, w1) \<Rightarrow> (Inr (), consoleLog ''Error deleting parking spot images:'' w1)
      | (Inr items, w1) \<Rightarrow>
          (case deleteAll deleteFault items w1 of
             (Inl e, w2) \<Rightarrow> (Inr (), consoleLog ''Error deleting parking spot images:'' w2)
           | (Inr u, w2) \<Rightarrow> (Inr (), w2)))"

section \<open>ListingStore (services/parkingSpots.ts, context/ParkingSpotsContext.tsx)\<close>

text \<open>\<open>convertDocToSpot\<close>; \<open>now\<close> is the value of \<open>new Date()\<close>.\<close>

definition convertDocToSpot :: "Date \<Rightarrow> string \<Rightarrow> DocData \<Rightarrow> ParkingSpot" where
  "convertDocToSpot now docId d =
     \<lparr> spot_id = docId,
       ownerId = d_ownerId d,
       ownerName = d_ownerName d,
       title = d_title d,
       description = d_description d,
       location =
         \<lparr> latitude = latitude (d_location d),
           longitude = longitude (d_location d),
           address = address (d_location d),
           city = city (d_location d),
           state = state (d_location d),
           zipCode = zipCode (d_location d) \<rparr>,
       pricePerHour = d_pricePerHour d,
       pricePerDay = d_pricePerDay d,
       imageURLs = (case d_imageURLs d of None \<Rightarrow> [] | Some urls \<Rightarrow> urls),
       isAvailable = (case d_isAvailable d of None \<Rightarrow> True | Some b \<Rightarrow> b),
       availabilitySchedule = d_availabilitySchedule d,
       spotType = d_spotType d,
       amenities = (case d_amenities d of None \<Rightarrow> [] | Some as \<Rightarrow> as),
       rating = d_rating d,
       reviewCount = d_reviewCount d,
       createdAt = (case d_createdAt d of None \<Rightarrow> now | Some t \<Rightarrow> t),
       updatedAt = (case d_updatedAt d of None \<Rightarrow> now | Some t \<Rightarrow> t) \<rparr>"

text \<open>
  The snapshot listener of \<open>subscribeToSpots\<close>: from the documents of a snapshot (key and
  data, in the snapshot's order) to the list handed to \<open>onUpdate\<close>.
\<close>

definition newestFirst :: "ParkingSpot \<Rightarrow> ParkingSpot \<Rightarrow> jsnum" where
  "newestFirst a b = Num (of_int (createdAt b - createdAt a))"

definition subscribeToSpots :: "Date \<Rightarrow> (string \<times> DocData) list \<Rightarrow> ParkingSpot list" where
  "subscribeToSpots now docs =
     Array_sort newestFirst
       (filter (\<lambda>spot. isAvailable spot) (map (\<lambda>(docId, d). convertDocToSpot now docId d) docs))"

record ParkingSpotsState =
  spots :: "ParkingSpot list"
  userSpots :: "ParkingSpot list"
  spots_isLoading :: bool
  spots_error :: "string option"

text \<open>The \<open>onUpdate\<close> callback that \<open>ParkingSpotsProvider\<close> passes to \<open>subscribeToSpots\<close>.\<close>

definition onUpdate :: "ParkingSpot list \<Rightarrow> ParkingSpotsState \<Rightarrow> ParkingSpotsState" where
  "onUpdate updatedSpots st = st\<lparr>spots := updatedSpots, spots_isLoading := False\<rparr>"

subsection \<open>Update\<close>

text \<open>
  \<open>updateParkingSpot\<close>: \<open>const { id, createdAt, ...updateData } = data\<close>, then
  \<open>updateDoc(spotRef, { ...updateData, updatedAt: serverTimestamp() })\<close>; \<open>serverTime\<close> is
  the time the server writes for \<open>serverTimestamp()\<close>.
\<close>

definition updateData :: "SpotPartial \<Rightarrow> SpotPartial" where
  "updateData d = d\<lparr>p_id := None, p_createdAt := None\<rparr>"

definition updateParkingSpot ::
  "JsError option \<Rightarrow> Date \<Rightarrow> string \<Rightarrow> SpotPartial \<Rightarrow> World \<Rightarrow> (JsError + unit) \<times> World" where
  "updateParkingSpot fault serverTime spotId d w =
     (case updateDoc fault spotId ((updateData d)\<lparr>p_updatedAt := Some serverTime\<rparr>) w of
        (Inl e, w1) \<Rightarrow>
          (Inl (Error ''Failed to update parking spot''), consoleLog ''Error updating parking spot:'' w1)
      | (Inr u, w1) \<Rightarrow> (Inr (), w1))"

text \<open>\<open>{ ...spot, ...data, updatedAt: new Date() }\<close>.\<close>

definition mergeSpot :: "ParkingSpot \<Rightarrow> SpotPartial \<Rightarrow> Date \<Rightarrow> ParkingSpot" where
  "mergeSpot spot d now =
     \<lparr> spot_id = ifPresent (p_id d) (spot_id spot),
       ownerId = ifPresent (p_ownerId d) (ownerId spot),
       ownerName = ifPresent (p_ownerName d) (ownerName spot),
       title = ifPresent (p_title d) (title spot),
       description = ifPresent (p_description d) (description spot),
       location = ifPresent (p_location d) (location spot),
       pricePerHour = ifPresent (p_pricePerHour d) (pricePerHour spot),
       pricePerDay = ifPresentOpt (p_pricePerDay d) (pricePerDay spot),
       imageURLs = ifPresent (p_imageURLs d) (imageURLs spot),
       isAvailable = ifPresent (p_isAvailable d) (isAvailable spot),
       availabilitySchedule = ifPresentOpt (p_availabilitySchedule d) (availabilitySchedule spot),
       spotType = ifPresent (p_spotType d) (spotType spot),
       amenities = ifPresent (p_amenities d) (amenities spot),
       rating = ifPresentOpt (p_rating d) (rating spot),
       reviewCount = ifPresentOpt (p_reviewCount d) (reviewCount spot),
       createdAt = ifPresent (p_createdAt d) (createdAt spot),
       updatedAt = now \<rparr>"

definition updateLocalSpots :: "string \<Rightarrow> SpotPartial \<Rightarrow> Date \<Rightarrow> ParkingSpot list \<Rightarrow> ParkingSpot list" where
  "updateLocalSpots spotId d now xs =
     map (\<lambda>spot. if spot_id spot = spotId then mergeSpot spot d now else spot) xs"

definition updateSpot ::
  "JsError option \<Rightarrow> Date \<Rightarrow> Date \<Rightarrow> string \<Rightarrow> SpotPartial \<Rightarrow> World \<times> ParkingSpotsState
     \<Rightarrow> (JsError + unit) \<times> World \<times> ParkingSpotsState" where
  "updateSpot fault serverTime now spotId d ws =
     (case ws of (w, st) \<Rightarrow>
        (case updateParkingSpot fault serverTime spotId d w of
           (Inr u, w1) \<Rightarrow>
             (Inr (), w1,
              st\<lparr>spots := updateLocalSpots spotId d now (spots st),
                 userSpots := updateLocalSpots spotId d now (userSpots st)\<rparr>)
         | (Inl err, w1) \<Rightarrow> (Inl err, w1, st\<lparr>spots_error := Some (err_message err)\<rparr>)))"

subsection \<open>Delete\<close>

definition deleteParkingSpot :: "JsError option \<Rightarrow> string \<Rightarrow> World \<Rightarrow> (JsError + unit) \<times> World" where
  "deleteParkingSpot fault spotId w =
     (case deleteDoc fault spotId w of
        (Inl e, w1) \<Rightarrow>
          (Inl (Error ''Failed to delete parking spot''), consoleLog ''Error deleting parking spot:'' w1)
      | (Inr u, w1) \<Rightarrow> (Inr (), w1))"

definition filterSpots :: "string \<Rightarrow> ParkingSpot list \<Rightarrow> ParkingSpot list" where
  "filterSpots spotId xs = filter (\<lambda>spot. spot_id spot \<noteq> spotId) xs"

definition deleteSpot ::
  "JsError option \<Rightarrow> string \<Rightarrow> World \<times> ParkingSpotsState
     \<Rightarrow> (JsError + unit) \<times> World \<times> ParkingSpotsState" where
  "deleteSpot fault spotId ws =
     (case ws of (w, st) \<Rightarrow>
        (case deleteParkingSpot fault spotId w of
           (Inr u, w1) \<Rightarrow>
             (Inr (), w1,
              st\<lparr>spots := filterSpots spotId (spots st),
                 userSpots := filterSpots spotId (userSpots st)\<rparr>)
         | (Inl err, w1) \<Rightarrow> (Inl err, w1, st\<lparr>spots_error := Some (err_message err)\<rparr>)))"

section \<open>SessionStore (services/auth.ts, context/AuthContext.tsx)\<close>

text \<open>The user object of the auth provider.\<close>

record FirebaseUser =
  fu_uid :: string
  fu_email :: "string option"
  fu_displayName :: "string option"
  fu_photoURL :: "string option"

text \<open>\<open>s || fallback\<close> on \<open>string | null\<close>: \<open>null\<close> and the empty string are falsy.\<close>

definition orElse :: "string option \<Rightarrow> string \<Rightarrow> string" where
  "orElse s fallback = (case s of None \<Rightarrow> fallback | Some t \<Rightarrow> if t = [] then fallback else t)"

text \<open>\<open>email.split('@')[0]\<close>: the text before the first \<open>@\<close>.\<close>

definition localPart :: "string \<Rightarrow> string" where
  "localPart e = takeWhile (\<lambda>c. c \<noteq> CHR ''@'') e"

definition handleAuthError :: "JsError \<Rightarrow> JsError" where
  \<open>handleAuthError e =
     Error
       (if err_code e = Some ''auth/email-already-in-use'' then
          ''This email is already registered. Please sign in instead.''
        else if err_code e = Some ''auth/invalid-email'' then
          ''Please enter a valid email address.''
        else if err_code e = Some ''auth/operation-not-allowed'' then
          ''Email/password accounts are not enabled.''
        else if err_code e = Some ''auth/weak-password'' then
          ''Password should be at least 6 characters.''
        else if err_code e = Some ''auth/user-disabled'' then
          ''This account has been disabled.''
        else if err_code e = Some ''auth/user-not-found'' then
          ''No account found with this email.''
        else if err_code e = Some ''auth/wrong-password'' then
          ''Incorrect password. Please try again.''
        else if err_code e = Some ''auth/invalid-credential'' then
          ''Invalid email or password.''
        else if err_code e = Some ''auth/too-many-requests'' then
          ''Too many failed attempts. Please try again later.''
        else if err_code e = Some ''auth/network-request-failed'' then
          ''Network error. Please check your connection.''
        else if err_code e = Some ''auth/configuration-not-found'' then
          ''Sign-in method is disabled. Please enable "Email/Password" in Firebase Console.''
        else if err_message e \<noteq> [] then err_message e
        else ''An error occurred. Please try again.'')\<close>

text \<open>\<open>getUserData\<close>: \<open>null\<close> when the document does not exist, and when the read fails.\<close>

definition getUserData :: "JsError option \<Rightarrow> Date \<Rightarrow> string \<Rightarrow> World \<Rightarrow> User option \<times> World" where
  "getUserData fault now userId w =
     (case getUserDoc fault userId w of
        (Inl e, w1) \<Rightarrow> (None, consoleLog ''Error fetching user data:'' w1)
      | (Inr None, w1) \<Rightarrow> (None, w1)
      | (Inr (Some d), w1) \<Rightarrow>
          (Some \<lparr> uid = userId,
                  email = ud_email d,
                  name = ud_name d,
                  role = ud_role d,
                  photoURL = ud_photoURL d,
                  phone = ud_phone d,
                  user_createdAt = (case ud_createdAt d of None \<Rightarrow> now | Some t \<Rightarrow> t),
                  user_updatedAt = (case ud_updatedAt d of None \<Rightarrow> now | Some t \<Rightarrow> t) \<rparr>,
           w1))"

text \<open>
  \<open>signInWithEmailAndPassword\<close>: the auth provider's answer, a rejection or the user, is
  \<open>authResult\<close>.
\<close>

definition signInWithEmailAndPassword ::
  "(JsError + FirebaseUser) \<Rightarrow> string \<Rightarrow> World \<Rightarrow> (JsError + FirebaseUser) \<times> World" where
  "signInWithEmailAndPassword authResult e w = (authResult, issue (SignInWithEmailAndPassword e) w)"

text \<open>
  \<open>signIn\<close> of services/auth.ts. \<open>getFault\<close> and \<open>setFault\<close> are the faults that the read
  and the write of the user document meet; \<open>now\<close> is \<open>new Date()\<close>, \<open>serverTime\<close> the
  value the server writes for \<open>serverTimestamp()\<close>.
\<close>

definition signIn ::
  "(JsError + FirebaseUser) \<Rightarrow> JsError option \<Rightarrow> JsError option \<Rightarrow> Date \<Rightarrow> Date
     \<Rightarrow> string \<Rightarrow> string \<Rightarrow> World \<Rightarrow> (JsError + User) \<times> World" where
  "signIn authResult getFault setFault now serverTime e password w =
     (case signInWithEmailAndPassword authResult e w of
        (Inl err, w1) \<Rightarrow> (Inl (handleAuthError err), consoleLog ''Sign in error:'' w1)
      | (Inr firebaseUser, w1) \<Rightarrow>
          (case getUserData getFault now (fu_uid firebaseUser) w1 of
             (Some userData, w2) \<Rightarrow> (Inr userData, w2)
           | (None, w2) \<Rightarrow>
               (let w3 = consoleLog ''User document not found in Firestore, creating from Auth data...'' w2;
                    newEmail = orElse (fu_email firebaseUser) e;
                    newName = orElse (fu_displayName firebaseUser) (localPart e)
                in case setUserDoc setFault (fu_uid firebaseUser)
                          \<lparr> ud_email = newEmail, ud_name = newName, ud_role = USER,
                            ud_photoURL = None, ud_phone = None,
                            ud_createdAt = Some serverTime, ud_updatedAt = Some serverTime \<rparr> w3 of
                     (Inl err, w4) \<Rightarrow> (Inl (handleAuthError err), consoleLog ''Sign in error:'' w4)
                   | (Inr u, w4) \<Rightarrow>
                       (Inr \<lparr> uid = fu_uid firebaseUser, email = newEmail, name = newName,
                              role = USER, photoURL = None, phone = None,
                              user_createdAt = now, user_updatedAt = now \<rparr>,
                        consoleLog ''User document created successfully'' w4))))"

text \<open>\<open>signOut\<close> of services/auth.ts.\<close>

definition auth_signOut :: "JsError option \<Rightarrow> World \<Rightarrow> (JsError + unit) \<times> World" where
  "auth_signOut fault w =
     (let w1 = issue AuthSignOut w in
      case fault of
        Some err \<Rightarrow> (Inl (handleAuthError err), w1)
      | None \<Rightarrow> (Inr (), w1))"

record AuthState =
  user :: "User option"
  auth_isLoading :: bool

text \<open>
  \<open>signOut\<close> of \<open>AuthProvider\<close>: \<open>setIsLoading(true); try { await firebaseSignOut();
  setUser(null); } finally { setIsLoading(false); }\<close>.
\<close>

definition signOut ::
  "JsError option \<Rightarrow> World \<times> AuthState \<Rightarrow> (JsError + unit) \<times> World \<times> AuthState" where
  "signOut fault ws =
     (case ws of (w, st0) \<Rightarrow>
        (let st = st0\<lparr>auth_isLoading := True\<rparr> in
         case auth_signOut fault w of
           (Inr u, w1) \<Rightarrow> (Inr (), w1, st\<lparr>user := None, auth_isLoading := False\<rparr>)
         | (Inl err, w1) \<Rightarrow> (Inl err, w1, st\<lparr>auth_isLoading := False\<rparr>)))"

section \<open>LocationSession (context/LocationContext.tsx)\<close>

datatype PermissionStatus = Granted | Denied | Undetermined

record Coords =
  c_latitude :: real
  c_longitude :: real

record GeocodedAddress =
  streetNumber :: "string option"
  street :: "string option"
  g_city :: "string option"
  region :: "string option"
  postalCode :: "string option"

text \<open>What the live position read does within the 10 seconds of the timeout, or that it does not answer.\<close>

datatype PositionOutcome = Resolved Coords | Rejected JsError | NoAnswer

text \<open>The answers of the device's location provider during one request.\<close>

record LocationEnv =
  getForegroundPermissions :: "JsError + PermissionStatus \<times> bool"
  requestForegroundPermissions :: "JsError + PermissionStatus"
  getCurrentPosition :: PositionOutcome
  getLastKnownPosition :: "JsError + Coords option"
  reverseGeocode :: "JsError + GeocodedAddress list"

record LocationState =
  userLocation :: "Location option"
  loc_isLoading :: bool
  loc_error :: "string option"
  alerts :: "string list"
  loc_console :: "string list"

definition requestPermission :: "LocationEnv \<Rightarrow> LocationState \<Rightarrow> bool \<times> LocationState" where
  "requestPermission env st =
     (case requestForegroundPermissions env of
        Inl err \<Rightarrow>
          (False, st\<lparr>loc_console := loc_console st @ [''Error requesting location permission:'']\<rparr>)
      | Inr status \<Rightarrow> (status = Granted, st))"

definition getPositionWithTimeout :: "LocationEnv \<Rightarrow> JsError + Coords" where
  "getPositionWithTimeout env =
     (case getCurrentPosition env of
        Resolved position \<Rightarrow> Inr position
      | Rejected err \<Rightarrow> Inl err
      | NoAnswer \<Rightarrow> Inl (Error ''Location request timed out''))"

text \<open>The outer \<open>catch\<close> of \<open>getCurrentLocation\<close>.\<close>

definition locationFailed :: "JsError \<Rightarrow> LocationState \<Rightarrow> Location option \<times> LocationState" where
  "locationFailed err st =
     (let errorMessage =
            (if err_code err = Some ''E_LOCATION_SERVICES_DISABLED'' then
               ''Location services are disabled. Please enable GPS in device settings.''
             else if err_message err \<noteq> [] then err_message err
             else ''Unable to get your current location.'')
      in (None,
          st\<lparr>loc_console := loc_console st @ [''Error getting location:''],
             loc_error := Some errorMessage, loc_isLoading := False\<rparr>))"

text \<open>\<open>s || undefined\<close>, and \<open>Boolean(s)\<close> as a filter, on \<open>string | null\<close>.\<close>

definition truthy :: "string option \<Rightarrow> string option" where
  "truthy s = (case s of None \<Rightarrow> None | Some t \<Rightarrow> if t = [] then None else Some t)"

fun joinWith :: "string \<Rightarrow> string list \<Rightarrow> string" where
  "joinWith sep [] = []"
| "joinWith sep [x] = x"
| "joinWith sep (x # y # ys) = x @ sep @ joinWith sep (y # ys)"

text \<open>The inner \<open>try\<close> of \<open>getCurrentLocation\<close>: reverse geocoding of the point.\<close>

definition withAddress :: "LocationEnv \<Rightarrow> Location \<Rightarrow> LocationState \<Rightarrow> Location \<times> LocationState" where
  "withAddress env loc st =
     (case reverseGeocode env of
        Inl geocodeError \<Rightarrow>
          (loc, st\<lparr>loc_console := loc_console st @ [''Reverse geocoding failed:'']\<rparr>)
      | Inr [] \<Rightarrow> (loc, st)
      | Inr (a # rest) \<Rightarrow>
          (loc\<lparr>address := Some (joinWith '' '' (List.map_filter truthy [streetNumber a, street a])),
               city := truthy (g_city a),
               state := truthy (region a),
               zipCode := truthy (postalCode a)\<rparr>,
           st))"

text \<open>After the permission check: the position read, its fallback, and the geocoding.\<close>

definition readPosition :: "LocationEnv \<Rightarrow> LocationState \<Rightarrow> Location option \<times> LocationState" where
  "readPosition env st =
     (let (position, st1) =
            (case getPositionWithTimeout env of
               Inr p \<Rightarrow> (Inr (Some p), st)
             | Inl err \<Rightarrow>
                 (getLastKnownPosition env,
                  st\<lparr>loc_console := loc_console st @
                       [''getCurrentPositionAsync failed or timed out, trying last known position:'']\<rparr>))
      in case position of
           Inl err \<Rightarrow> locationFailed err st1
         | Inr None \<Rightarrow> locationFailed (Error ''Unable to retrieve location.'') st1
         | Inr (Some p) \<Rightarrow>
             (case withAddress env
                     \<lparr> latitude = c_latitude p, longitude = c_longitude p,
                       address = None, city = None, state = None, zipCode = None \<rparr> st1 of
                (loc, st2) \<Rightarrow> (Some loc, st2\<lparr>userLocation := Some loc, loc_isLoading := False\<rparr>)))"

definition getCurrentLocation :: "LocationEnv \<Rightarrow> LocationState \<Rightarrow> Location option \<times> LocationState" where
  "getCurrentLocation env st0 =
     (let st = st0\<lparr>loc_isLoading := True, loc_error := None\<rparr> in
      case getForegroundPermissions env of
        Inl err \<Rightarrow> locationFailed err st
      | Inr (status, canAskAgain) \<Rightarrow>
          if status \<noteq> Granted then
            (if canAskAgain then
               (case requestPermission env st of
                  (granted, st1) \<Rightarrow>
                    if \<not> granted then
                      (None,
                       st1\<lparr>alerts := alerts st1 @ [''Permission Required''],
                           loc_error := Some ''Location permission not granted'',
                           loc_isLoading := False\<rparr>)
                    else readPosition env st1)
             else
               (None,
                st\<lparr>alerts := alerts st @ [''Permission Denied''],
                   loc_error := Some ''Location permission denied in settings'',
                   loc_isLoading := False\<rparr>))
          else readPosition env st)"

section \<open>Example data\<close>

text \<open>
  A user at latitude 0, longitude 0; one listing at the user's own position and one a
  tenth of a degree to the east; the stored document of the first, with one stored image.
\<close>

definition point :: "real \<Rightarrow> real \<Rightarrow> Location" where
  "point lat lon =
     \<lparr> latitude = lat, longitude = lon, address = None, city = None, state = None, zipCode = None \<rparr>"

definition spotHere :: ParkingSpot where
  "spotHere =
     \<lparr> spot_id = ''spot1'', ownerId = ''ann'', ownerName = ''Ann'', title = ''Driveway'',
       description = ''Near the station'', location = point 0 0, pricePerHour = 12.5,
       pricePerDay = None, imageURLs = [], isAvailable = True, availabilitySchedule = None,
       spotType = DRIVEWAY, amenities = [], rating = None, reviewCount = None,
       createdAt = 1000, updatedAt = 1000 \<rparr>"

definition spotEast :: ParkingSpot where
  "spotEast =
     \<lparr> spot_id = ''spot2'', ownerId = ''bob'', ownerName = ''Bob'', title = ''Garage'',
       description = ''Covered'', location = point 0 (1 / 10), pricePerHour = 8,
       pricePerDay = None, imageURLs = [], isAvailable = True, availabilitySchedule = None,
       spotType = GARAGE, amenities = [], rating = None, reviewCount = None,
       createdAt = 900, updatedAt = 900 \<rparr>"

definition docHere :: DocData where
  "docHere =
     \<lparr> d_id = None, d_ownerId = ''ann'', d_ownerName = ''Ann'', d_title = ''Driveway'',
       d_description = ''Near the station'', d_location = point 0 0, d_pricePerHour = 12.5,
       d_pricePerDay = None, d_imageURLs = None, d_isAvailable = None,
       d_availabilitySchedule = None, d_spotType = DRIVEWAY, d_amenities = None,
       d_rating = None, d_reviewCount = None, d_createdAt = Some 1000, d_updatedAt = Some 1000 \<rparr>"

definition noFields :: SpotPartial where
  "noFields =
     \<lparr> p_id = None, p_ownerId = None, p_ownerName = None, p_title = None, p_description = None,
       p_location = None, p_pricePerHour = None, p_pricePerDay = None, p_imageURLs = None,
       p_isAvailable = None, p_availabilitySchedule = None, p_spotType = None,
       p_amenities = None, p_rating = None, p_reviewCount = None, p_createdAt = None,
       p_updatedAt = None \<rparr>"

text \<open>The update \<open>{id: "other", createdAt: new Date(5), title: "New"}\<close>.\<close>

definition patch0 :: SpotPartial where
  "patch0 = noFields\<lparr>p_id := Some ''other'', p_createdAt := Some 5, p_title := Some ''New''\<rparr>"

definition world0 :: World where
  "world0 =
     \<lparr> parkingSpotsCol = [''spot1'' \<mapsto> docHere], usersCol = Map.empty,
       storageObjects = [''parkingSpots/spot1/1700000000000_0.jpg''], calls = [], console = [] \<rparr>"

definition store0 :: ParkingSpotsState where
  "store0 = \<lparr> spots = [spotHere, spotEast], userSpots = [spotHere],
              spots_isLoading = False, spots_error = None \<rparr>"

definition ann :: User where
  "ann = \<lparr> uid = ''ann'', email = ''ann@example.com'', name = ''Ann'', role = HOMEOWNER,
           photoURL = None, phone = None, user_createdAt = 1000, user_updatedAt = 1000 \<rparr>"

definition annAuth :: FirebaseUser where
  "annAuth = \<lparr> fu_uid = ''ann'', fu_email = Some ''ann@example.com'', fu_displayName = None,
               fu_photoURL = None \<rparr>"

definition device0 :: LocationEnv where
  "device0 =
     \<lparr> getForegroundPermissions = Inr (Granted, True),
       requestForegroundPermissions = Inr Granted,
       getCurrentPosition = Resolved \<lparr> c_latitude = 0, c_longitude = 1 / 10 \<rparr>,
       getLastKnownPosition = Inr None,
       reverseGeocode = Inl (Error ''geocoder unavailable'') \<rparr>"

definition session0 :: LocationState where
  "session0 = \<lparr> userLocation = None, loc_isLoading = False, loc_error = None, alerts = [],
                loc_console = [] \<rparr>"

section \<open>GeoMath: the formula over the reals\<close>

text \<open>
  Read over the reals, the formula is symmetric and is \<open>0\<close> between a point and itself.
  These are facts about the formula only: the program evaluates it in IEEE doubles, where
  rounding can take \<open>a\<close> above \<open>1\<close> for nearly antipodal points, so that
  \<open>Math.sqrt(1 - a)\<close> and the result are \<open>NaN\<close>; that arithmetic is outside this model.
\<close>

lemma haversine_swap:
  "sin (toRad (x - y) / 2) * sin (toRad (x - y) / 2) =
   sin (toRad (y - x) / 2) * sin (toRad (y - x) / 2)"
proof -
  have "toRad (x - y) / 2 = - (toRad (y - x) / 2)"
    by (simp add: toRad_def field_simps)
  then show ?thesis by simp
qed

lemma calculateDistance_commute:
  "calculateDistance lat1 lon1 lat2 lon2 = calculateDistance lat2 lon2 lat1 lon1"
  unfolding calculateDistance_def Let_def
  by (simp only: haversine_swap [of lat2 lat1] haversine_swap [of lon2 lon1] mult.assoc
        mult.left_commute [of "cos (toRad lat1)"])

lemma calculateDistance_self: "calculateDistance lat lon lat lon = 0"
  by (simp add: calculateDistance_def toRad_def atan2_def)

lemma atan2_sin_cos:
  assumes "0 \<le> h" and "h < pi / 2"
  shows "atan2 (sin h) (cos h) = h"
proof -
  have c: "0 < cos h" using assms by (intro cos_gt_zero_pi) auto
  have "arctan (sin h / cos h) = arctan (tan h)" by (simp add: tan_def)
  also have "\<dots> = h" using assms by (intro arctan_tan) auto
  finally show ?thesis using c by (simp add: atan2_def)
qed

text \<open>Between two points of the equator less than 180 degrees apart, the distance is the arc.\<close>

lemma calculateDistance_equator:
  assumes "0 \<le> lon2 - lon1" and "lon2 - lon1 < 180"
  shows "calculateDistance 0 lon1 0 lon2 = 6371 * toRad (lon2 - lon1)"
proof -
  define h where "h = toRad (lon2 - lon1) / 2"
  have h0: "0 \<le> h" using assms(1) by (simp add: h_def toRad_def)
  have h1: "h < pi / 2" using assms(2) by (simp add: h_def toRad_def)
  have s: "0 \<le> sin h" using h0 h1 by (intro sin_ge_zero) auto
  have c: "0 < cos h" using h0 h1 by (intro cos_gt_zero_pi) auto
  have a: "sin h * sin h = (sin h)\<^sup>2" by (simp add: power2_eq_square)
  have b: "1 - (sin h)\<^sup>2 = (cos h)\<^sup>2" using sin_cos_squared_add [of h] by linarith
  have "calculateDistance 0 lon1 0 lon2 =
          6371 * (2 * atan2 (sqrt ((sin h)\<^sup>2)) (sqrt (1 - (sin h)\<^sup>2)))"
    by (simp add: calculateDistance_def Let_def h_def [symmetric] toRad_def [of 0] a)
  also have "\<dots> = 6371 * (2 * atan2 (sin h) (cos h))"
    using s c by (simp add: b)
  also have "\<dots> = 6371 * (2 * h)" using h0 h1 by (simp add: atan2_sin_cos)
  finally show ?thesis by (simp add: h_def)
qed

lemma distance_east: "calculateDistance 0 0 0 (1 / 10) = 6371 * pi / 1800"
proof -
  have "calculateDistance 0 0 0 (1 / 10) = 6371 * toRad (1 / 10 - 0)"
    by (rule calculateDistance_equator) simp_all
  then show ?thesis by (simp add: toRad_def)
qed

lemma distance_east_bounds: "0 < 6371 * pi / 1800" "6371 * pi / 1800 \<le> 25"
  using pi_gt_zero pi_less_4 by simp_all

section \<open>SearchFilterEngine\<close>

subsection \<open>The sort keeps the elements, and the pipeline keeps what passes every stage\<close>

lemma set_insertSorted: "set (insertSorted cmp x xs) = insert x (set xs)"
  by (induction xs) auto

lemma set_Array_sort: "set (Array_sort cmp xs) = set xs"
  unfolding Array_sort_def by (induction xs) (simp_all add: set_insertSorted)

lemma insertSorted_not_positive:
  "\<not> isPositive (cmp x (hd xs)) \<Longrightarrow> insertSorted cmp x xs = x # xs"
  by (cases xs) simp_all

lemma Array_sort_flat:
  assumes "\<And>a b. \<not> isPositive (cmp a b)"
  shows "Array_sort cmp xs = xs"
  unfolding Array_sort_def
  by (induction xs) (simp_all add: insertSorted_not_positive assms)

lemma filteredSpots_set:
  "set (filteredSpots ss origin q maxP maxD types key) =
     {spot \<in> set ss.
        (trim q \<noteq> [] \<longrightarrow> matchesQuery (toLowerCase q) spot) \<and>
        pricePerHour spot \<le> maxP \<and>
        (origin \<noteq> None \<longrightarrow> withinDistance origin maxD spot) \<and>
        (''all'' \<notin> set types \<longrightarrow> SpotType_value (spotType spot) \<in> set types)}"
  unfolding filteredSpots_def Let_def set_Array_sort by auto

lemma filteredSpots_eq:
  "filteredSpots ss origin q maxP maxD types key =
     Array_sort (compareSpots key origin)
       (filter (\<lambda>spot.
            (trim q \<noteq> [] \<longrightarrow> matchesQuery (toLowerCase q) spot) \<and>
            pricePerHour spot \<le> maxP \<and>
            (origin \<noteq> None \<longrightarrow> withinDistance origin maxD spot) \<and>
            (''all'' \<notin> set types \<longrightarrow> SpotType_value (spotType spot) \<in> set types)) ss)"
  unfolding filteredSpots_def Let_def
  by (auto intro!: arg_cong [where f = "Array_sort _"] filter_cong)

subsection \<open>The sort orders by the comparator's key\<close>

lemma insertSorted_sorted:
  assumes "\<And>a b. a \<in> insert x (set xs) \<Longrightarrow> b \<in> insert x (set xs) \<Longrightarrow>
             isPositive (cmp a b) \<longleftrightarrow> k b < k a"
    and "sorted_wrt (\<lambda>a b. k a \<le> k b) xs"
  shows "sorted_wrt (\<lambda>a b. k a \<le> (k b :: real)) (insertSorted cmp x xs)"
  using assms
proof (induction xs)
  case Nil
  then show ?case by simp
next
  case (Cons y ys)
  show ?case
  proof (cases "isPositive (cmp x y)")
    case True
    then have yx: "k y < k x" using Cons.prems(1) [of x y] by simp
    have "sorted_wrt (\<lambda>a b. k a \<le> k b) (insertSorted cmp x ys)"
      using Cons.prems by (intro Cons.IH) auto
    moreover have "\<forall>z \<in> set (insertSorted cmp x ys). k y \<le> k z"
      using Cons.prems(2) yx by (auto simp add: set_insertSorted)
    ultimately show ?thesis using True by simp
  next
    case False
    then have xy: "k x \<le> k y" using Cons.prems(1) [of x y] by auto
    then have "\<forall>z \<in> set (y # ys). k x \<le> k z"
      using Cons.prems(2) by auto
    then show ?thesis using False Cons.prems(2) by simp
  qed
qed

lemma Array_sort_sorted:
  assumes "\<And>a b. a \<in> set xs \<Longrightarrow> b \<in> set xs \<Longrightarrow> isPositive (cmp a b) \<longleftrightarrow> k b < k a"
  shows "sorted_wrt (\<lambda>a b. k a \<le> (k b :: real)) (Array_sort cmp xs)"
  using assms
proof (induction xs)
  case Nil
  then show ?case by (simp add: Array_sort_def)
next
  case (Cons x xs)
  have s: "sorted_wrt (\<lambda>a b. k a \<le> k b) (Array_sort cmp xs)"
    using Cons.prems by (intro Cons.IH) auto
  have "sorted_wrt (\<lambda>a b. k a \<le> k b) (insertSorted cmp x (Array_sort cmp xs))"
    using Cons.prems s by (intro insertSorted_sorted) (auto simp add: set_Array_sort)
  then show ?case by (simp add: Array_sort_def)
qed

lemma compareSpots_distance_nonzero:
  assumes "distanceFrom u a \<noteq> 0" and "distanceFrom u b \<noteq> 0"
  shows "isPositive (compareSpots Distance (Some u) a b) \<longleftrightarrow> distanceFrom u b < distanceFrom u a"
  using assms
  by (simp add: compareSpots_def LocationContext_calculateDistance_def orInfinity_def distanceFrom_def)

text \<open>
  With a known origin, and no listing exactly at the origin, the output is ascending in
  the distance.
\<close>

lemma filteredSpots_distance_sorted:
  assumes "\<And>spot. spot \<in> set ss \<Longrightarrow> distanceFrom u spot \<noteq> 0"
  shows "sorted_wrt (\<lambda>a b. distanceFrom u a \<le> distanceFrom u b)
           (filteredSpots ss (Some u) q maxP maxD types Distance)"
proof -
  let ?xs = "filter (\<lambda>spot.
            (trim q \<noteq> [] \<longrightarrow> matchesQuery (toLowerCase q) spot) \<and>
            pricePerHour spot \<le> maxP \<and>
            (Some u \<noteq> None \<longrightarrow> withinDistance (Some u) maxD spot) \<and>
            (''all'' \<notin> set types \<longrightarrow> SpotType_value (spotType spot) \<in> set types)) ss"
  have "sorted_wrt (\<lambda>a b. distanceFrom u a \<le> distanceFrom u b)
          (Array_sort (compareSpots Distance (Some u)) ?xs)"
    using assms by (intro Array_sort_sorted compareSpots_distance_nonzero) auto
  then show ?thesis by (simp only: filteredSpots_eq)
qed

text \<open>With an unknown origin, sorting by distance leaves the order of the input.\<close>

lemma filteredSpots_origin_unknown_order:
  "filteredSpots ss None q maxP maxD types Distance =
     filter (\<lambda>spot. ''all'' \<notin> set types \<longrightarrow> SpotType_value (spotType spot) \<in> set types)
       (filter (\<lambda>spot. pricePerHour spot \<le> maxP)
          (filter (\<lambda>spot. trim q \<noteq> [] \<longrightarrow> matchesQuery (toLowerCase q) spot) ss))"
proof -
  have "Array_sort (compareSpots Distance None) xs = xs" for xs
    by (rule Array_sort_flat) (simp add: compareSpots_def)
  then show ?thesis
    by (simp add: filteredSpots_def Let_def)
qed

subsection \<open>The two example listings, seen from latitude 0, longitude 0\<close>

lemma distance_to_here:
  "LocationContext_calculateDistance (Some (point 0 0)) (location spotHere) = Some 0"
  by (simp add: LocationContext_calculateDistance_def spotHere_def point_def calculateDistance_self)

lemma distance_to_east:
  "LocationContext_calculateDistance (Some (point 0 0)) (location spotEast) = Some (6371 * pi / 1800)"
  by (simp add: LocationContext_calculateDistance_def spotEast_def point_def distance_east)

lemma compare_here_east:
  "compareSpots Distance (Some (point 0 0)) spotHere spotEast = PosInf"
  using distance_east_bounds(1)
  by (simp add: compareSpots_def distance_to_here distance_to_east orInfinity_def)

lemma within_here: "withinDistance (Some (point 0 0)) 25 spotHere"
  by (simp add: withinDistance_def distance_to_here)

lemma within_here_far: "withinDistance (Some (point 0 0)) 100000 spotHere"
  by (simp add: withinDistance_def distance_to_here)

lemma within_east: "withinDistance (Some (point 0 0)) 25 spotEast"
  using distance_east_bounds(2) by (simp add: withinDistance_def distance_to_east)

lemma prices: "pricePerHour spotHere = 12.5" "pricePerHour spotEast = 8"
  by (simp_all add: spotHere_def spotEast_def)

subsection \<open>Sorting by distance\<close>

text \<open>
  C3. With the sort key \<open>distance\<close> and a known origin, the output should be ascending in
  the distance from the origin. It is not when a listing lies exactly at the origin: its
  distance \<open>0\<close> is falsy, so \<open>calculateDistance(a.location) || Infinity\<close> gives it the key
  \<open>Infinity\<close>. With the user at latitude 0, longitude 0 and the default criteria (no query,
  price up to 50, distance up to 25 km, all types), the listing at distance \<open>0\<close> comes after
  the listing about 11 km away. (A listing added from the user's current position has
  exactly the user's coordinates.)
\<close>

theorem filteredSpots_distance_zero_last:
  "LocationContext_calculateDistance (Some (point 0 0)) (location spotHere) = Some 0 \<and>
   LocationContext_calculateDistance (Some (point 0 0)) (location spotEast)
     = Some (6371 * pi / 1800) \<and>
   0 < 6371 * pi / 1800 \<and>
   filteredSpots [spotHere, spotEast] (Some (point 0 0)) '''' 50 25 [''all''] Distance
     = [spotEast, spotHere]"
proof -
  have "filteredSpots [spotHere, spotEast] (Some (point 0 0)) '''' 50 25 [''all''] Distance
          = Array_sort (compareSpots Distance (Some (point 0 0))) [spotHere, spotEast]"
    by (simp add: filteredSpots_def trim_def prices within_here within_east)
  also have "\<dots> = [spotEast, spotHere]"
    by (simp add: Array_sort_def compare_here_east)
  finally show ?thesis
    using distance_to_here distance_to_east distance_east_bounds(1) by simp
qed

subsection \<open>Unknown origin\<close>

text \<open>
  C5. When the origin is unknown, the distance stage is skipped: the output is the sorted
  list of the listings that pass the query, price and type stages, it is the same for
  every distance ceiling, and a listing is in it exactly when it passes those three
  stages. No listing is removed for its distance, and the result is not emptied.
\<close>

theorem filteredSpots_origin_unknown:
  "filteredSpots ss None q maxP maxD types key =
     Array_sort (compareSpots key None)
       (filter (\<lambda>spot.
            (trim q \<noteq> [] \<longrightarrow> matchesQuery (toLowerCase q) spot) \<and>
            pricePerHour spot \<le> maxP \<and>
            (''all'' \<notin> set types \<longrightarrow> SpotType_value (spotType spot) \<in> set types)) ss) \<and>
   filteredSpots ss None q maxP maxD types key = filteredSpots ss None q maxP maxD' types key \<and>
   (spot \<in> set (filteredSpots ss None q maxP maxD types key) \<longleftrightarrow>
      spot \<in> set ss \<and>
      (trim q \<noteq> [] \<longrightarrow> matchesQuery (toLowerCase q) spot) \<and>
      pricePerHour spot \<le> maxP \<and>
      (''all'' \<notin> set types \<longrightarrow> SpotType_value (spotType spot) \<in> set types))"
proof (intro conjI)
  show "filteredSpots ss None q maxP maxD types key =
     Array_sort (compareSpots key None)
       (filter (\<lambda>spot.
            (trim q \<noteq> [] \<longrightarrow> matchesQuery (toLowerCase q) spot) \<and>
            pricePerHour spot \<le> maxP \<and>
            (''all'' \<notin> set types \<longrightarrow> SpotType_value (spotType spot) \<in> set types)) ss)"
    by (simp add: filteredSpots_eq)
  show "filteredSpots ss None q maxP maxD types key = filteredSpots ss None q maxP maxD' types key"
    by (simp add: filteredSpots_def)
  show "spot \<in> set (filteredSpots ss None q maxP maxD types key) \<longleftrightarrow>
      spot \<in> set ss \<and>
      (trim q \<noteq> [] \<longrightarrow> matchesQuery (toLowerCase q) spot) \<and>
      pricePerHour spot \<le> maxP \<and>
      (''all'' \<notin> set types \<longrightarrow> SpotType_value (spotType spot) \<in> set types)"
    by (simp add: filteredSpots_set)
qed

text \<open>With a distance ceiling of \<open>0\<close> and no origin, the listing 11 km away stays.\<close>

theorem filteredSpots_origin_unknown_witness:
  "filteredSpots [spotHere, spotEast] None '''' 50 0 [''all''] Distance
     = filteredSpots [spotHere, spotEast] None '''' 50 25 [''all''] Distance \<and>
   spotEast \<in> set (filteredSpots [spotHere, spotEast] None '''' 50 0 [''all''] Distance)"
proof -
  note w = filteredSpots_origin_unknown
    [where ss = "[spotHere, spotEast]" and q = "''''" and maxP = 50 and maxD = 0
       and maxD' = 25 and types = "[''all'']" and key = Distance and spot = spotEast]
  have "spotEast \<in> set (filteredSpots [spotHere, spotEast] None '''' 50 0 [''all''] Distance)"
    using conjunct2 [OF conjunct2 [OF w]] by (simp add: prices trim_def)
  with conjunct1 [OF conjunct2 [OF w]] show ?thesis by (rule conjI)
qed

subsection \<open>The price ceiling\<close>

text \<open>
  C6. A listing \<open>L\<close> is kept exactly when \<open>L.pricePerHour \<le> P\<close> (and it passes the other
  stages): the boundary is inclusive.
\<close>

theorem filteredSpots_price_ceiling:
  "spot \<in> set (filteredSpots ss origin q maxP maxD types key) \<longleftrightarrow>
     pricePerHour spot \<le> maxP \<and>
     spot \<in> set ss \<and>
     (trim q \<noteq> [] \<longrightarrow> matchesQuery (toLowerCase q) spot) \<and>
     (origin \<noteq> None \<longrightarrow> withinDistance origin maxD spot) \<and>
     (''all'' \<notin> set types \<longrightarrow> SpotType_value (spotType spot) \<in> set types)"
  by (auto simp add: filteredSpots_set)

text \<open>A listing at 12.50 per hour is kept at the ceiling 12.50 and dropped at 12.49.\<close>

theorem filteredSpots_price_ceiling_witness:
  "spotHere \<in> set (filteredSpots [spotHere] (Some (point 0 0)) '''' 12.5 100000 [''all''] Distance) \<and>
   spotHere \<notin> set (filteredSpots [spotHere] (Some (point 0 0)) '''' 12.49 100000 [''all''] Distance)"
proof -
  note w = filteredSpots_price_ceiling
    [where spot = spotHere and ss = "[spotHere]" and origin = "Some (point 0 0)" and q = "''''"
       and maxD = 100000 and types = "[''all'']" and key = Distance]
  have "spotHere \<in> set (filteredSpots [spotHere] (Some (point 0 0)) '''' 12.5 100000 [''all''] Distance)"
    using w [where maxP = "12.5"] by (simp add: prices within_here_far trim_def)
  moreover
  have "spotHere \<notin> set (filteredSpots [spotHere] (Some (point 0 0)) '''' 12.49 100000 [''all''] Distance)"
    using w [where maxP = "12.49"] by (simp add: prices)
  ultimately show ?thesis by (rule conjI)
qed

section \<open>ListingStore\<close>

subsection \<open>Conversion of remote documents\<close>

text \<open>
  C10. A remote document without the field \<open>isAvailable\<close> is converted to an available
  listing, so it is in the list that the subscription delivers and in the view
  \<open>spots\<close>; a document without the field \<open>imageURLs\<close> gets the empty list.
\<close>

theorem convertDocToSpot_defaults:
  assumes "(docId, d) \<in> set docs"
  shows "(d_isAvailable d = None \<longrightarrow>
            isAvailable (convertDocToSpot now docId d) \<and>
            convertDocToSpot now docId d \<in> set (subscribeToSpots now docs) \<and>
            convertDocToSpot now docId d \<in> set (spots (onUpdate (subscribeToSpots now docs) st))) \<and>
         (d_imageURLs d = None \<longrightarrow> imageURLs (convertDocToSpot now docId d) = [])"
proof -
  have conv: "convertDocToSpot now docId d \<in> (\<lambda>(k, v). convertDocToSpot now k v) ` set docs"
    using assms by force
  show ?thesis
  proof (intro conjI impI)
    assume a: "d_isAvailable d = None"
    then show av: "isAvailable (convertDocToSpot now docId d)"
      by (simp add: convertDocToSpot_def)
    with conv show m: "convertDocToSpot now docId d \<in> set (subscribeToSpots now docs)"
      by (simp add: subscribeToSpots_def set_Array_sort)
    then show "convertDocToSpot now docId d \<in> set (spots (onUpdate (subscribeToSpots now docs) st))"
      by (simp add: onUpdate_def)
  next
    assume "d_imageURLs d = None"
    then show "imageURLs (convertDocToSpot now docId d) = []"
      by (simp add: convertDocToSpot_def)
  qed
qed

theorem convertDocToSpot_defaults_witness:
  "d_isAvailable docHere = None \<and> d_imageURLs docHere = None \<and>
   isAvailable (convertDocToSpot 5000 ''spot1'' docHere) \<and>
   convertDocToSpot 5000 ''spot1'' docHere \<in> set (subscribeToSpots 5000 [(''spot1'', docHere)]) \<and>
   convertDocToSpot 5000 ''spot1'' docHere
     \<in> set (spots (onUpdate (subscribeToSpots 5000 [(''spot1'', docHere)]) store0)) \<and>
   imageURLs (convertDocToSpot 5000 ''spot1'' docHere) = []"
proof -
  have n: "d_isAvailable docHere = None" "d_imageURLs docHere = None"
    by (simp_all add: docHere_def)
  have m: "(''spot1'', docHere) \<in> set [(''spot1'', docHere)]" by simp
  show ?thesis
    using convertDocToSpot_defaults [OF m, of 5000 store0] n by blast
qed

subsection \<open>Delete\<close>

lemma deleteObject_frame:
  "console (snd (deleteObject fault path w)) = console w"
  "parkingSpotsCol (snd (deleteObject fault path w)) = parkingSpotsCol w"
  "calls (snd (deleteObject fault path w)) = calls w @ [DeleteObject path]"
  by (simp_all add: deleteObject_def issue_def Let_def split: option.splits)

lemma deleteAll_frame:
  "console (snd (deleteAll f items w)) = console w \<and>
   parkingSpotsCol (snd (deleteAll f items w)) = parkingSpotsCol w \<and>
   calls (snd (deleteAll f items w)) = calls w @ map DeleteObject items"
proof (induction items arbitrary: w)
  case Nil
  show ?case by simp
next
  case (Cons item items)
  obtain r w1 where d: "deleteObject (f item) item w = (r, w1)"
    by (cases "deleteObject (f item) item w")
  obtain rs w2 where a: "deleteAll f items w1 = (rs, w2)"
    by (cases "deleteAll f items w1")
  have "w1 = snd (deleteObject (f item) item w)" using d by simp
  then have w1: "console w1 = console w" "parkingSpotsCol w1 = parkingSpotsCol w"
    "calls w1 = calls w @ [DeleteObject item]"
    by (simp_all add: deleteObject_frame)
  have "w2 = snd (deleteAll f items w1)" using a by simp
  then have "console w2 = console w1 \<and> parkingSpotsCol w2 = parkingSpotsCol w1 \<and>
     calls w2 = calls w1 @ map DeleteObject items"
    using Cons.IH [of w1] by simp
  then show ?case by (simp add: d a w1)
qed

text \<open>One deletion that meets a fault makes the whole \<open>Promise.all\<close> fail.\<close>

lemma deleteAll_fault:
  assumes "item \<in> set items" and "f item \<noteq> None"
  shows "\<exists>e. fst (deleteAll f items w) = Inl e"
  using assms
proof (induction items arbitrary: w)
  case Nil
  then show ?case by simp
next
  case (Cons x xs)
  obtain r w1 where d: "deleteObject (f x) x w = (r, w1)" by (cases "deleteObject (f x) x w")
  obtain rs w2 where a: "deleteAll f xs w1 = (rs, w2)" by (cases "deleteAll f xs w1")
  show ?case
  proof (cases r)
    case (Inl e)
    then show ?thesis by (simp add: d a)
  next
    case (Inr u)
    have "f x = None"
      using d Inr by (auto simp add: deleteObject_def Let_def split: option.splits)
    then have "item \<in> set xs" using Cons.prems by auto
    then obtain e where "fst (deleteAll f xs w1) = Inl e" using Cons.IH Cons.prems(2) by blast
    then show ?thesis using Inr by (simp add: d a)
  qed
qed

text \<open>Without a fault, the stored objects that were listed are removed, and no others.\<close>

lemma deleteAll_ok:
  assumes "distinct items" and "set items \<subseteq> set (storageObjects w)"
    and "\<And>item. item \<in> set items \<Longrightarrow> f item = None"
  shows "fst (deleteAll f items w) = Inr () \<and>
         storageObjects (snd (deleteAll f items w)) = filter (\<lambda>p. p \<notin> set items) (storageObjects w)"
  using assms
proof (induction items arbitrary: w)
  case Nil
  show ?case by simp
next
  case (Cons x xs)
  let ?w1 = "(issue (DeleteObject x) w)\<lparr>storageObjects := filter (\<lambda>p. p \<noteq> x) (storageObjects w)\<rparr>"
  have d: "deleteObject (f x) x w = (Inr (), ?w1)"
    using Cons.prems by (simp add: deleteObject_def issue_def Let_def)
  have sub: "set xs \<subseteq> set (storageObjects ?w1)"
    using Cons.prems(1,2) by auto
  have ih: "fst (deleteAll f xs ?w1) = Inr () \<and>
        storageObjects (snd (deleteAll f xs ?w1)) = filter (\<lambda>p. p \<notin> set xs) (storageObjects ?w1)"
    using Cons.prems(1,3) sub by (intro Cons.IH) auto
  obtain rs w2 where a: "deleteAll f xs ?w1 = (rs, w2)" by (cases "deleteAll f xs ?w1")
  from ih a have "rs = Inr ()" "storageObjects w2 = filter (\<lambda>p. p \<notin> set xs) (storageObjects ?w1)"
    by simp_all
  then show ?case by (simp add: d a conj_commute)
qed

text \<open>
  C1, as the code has it. For every listing id: when the backend delete succeeds, the
  listing is removed from the collection and then from both local views, the only gateway
  call issued is that delete, and the stored images and the console are left as they
  were; when the backend delete fails, the failure is logged and propagated, the error
  message is set, and the collection, both views and the stored images stay as they were.
  The cleanup of a listing's images is a separate operation, which \<open>deleteSpot\<close> does not
  call. It never propagates a failure and never touches the collection. It logs a failure
  of the listing of the folder, and then deletes nothing; it issues the deletion of every
  listed image, logs when any of them fails, and logs nothing when none does, in which
  case (the paths of the stored objects being distinct) exactly the images of the folder
  are gone.
\<close>

theorem deleteSpot_effects:
  "(case deleteSpot None spotId (w, st) of
      (r, w', st') \<Rightarrow>
        r = Inr () \<and>
        parkingSpotsCol w' = (parkingSpotsCol w)(spotId := None) \<and>
        spots st' = filter (\<lambda>spot. spot_id spot \<noteq> spotId) (spots st) \<and>
        userSpots st' = filter (\<lambda>spot. spot_id spot \<noteq> spotId) (userSpots st) \<and>
        calls w' = calls w @ [DeleteDoc spotId] \<and>
        storageObjects w' = storageObjects w \<and>
        console w' = console w) \<and>
   (case deleteSpot (Some e) spotId (w, st) of
      (r, w', st') \<Rightarrow>
        r = Inl (Error ''Failed to delete parking spot'') \<and>
        parkingSpotsCol w' = parkingSpotsCol w \<and>
        spots st' = spots st \<and> userSpots st' = userSpots st \<and>
        spots_error st' = Some ''Failed to delete parking spot'' \<and>
        calls w' = calls w @ [DeleteDoc spotId] \<and>
        storageObjects w' = storageObjects w \<and>
        console w' = console w @ [''Error deleting parking spot:'']) \<and>
   (case deleteParkingSpotImages listFault deleteFault spotId w of
      (r, w') \<Rightarrow>
        r = Inr () \<and>
        parkingSpotsCol w' = parkingSpotsCol w \<and>
        (listFault \<noteq> None \<longrightarrow>
           console w' = console w @ [''Error deleting parking spot images:''] \<and>
           storageObjects w' = storageObjects w \<and>
           calls w' = calls w @ [ListAll (''parkingSpots/'' @ spotId)]) \<and>
        (listFault = None \<longrightarrow>
           calls w' = calls w @ ListAll (''parkingSpots/'' @ spotId) #
             map DeleteObject
               (filter (prefix ((''parkingSpots/'' @ spotId) @ ''/'')) (storageObjects w))) \<and>
        (listFault = None \<and>
         (\<exists>item \<in> set (filter (prefix ((''parkingSpots/'' @ spotId) @ ''/'')) (storageObjects w)).
            deleteFault item \<noteq> None) \<longrightarrow>
           console w' = console w @ [''Error deleting parking spot images:'']) \<and>
        (listFault = None \<and> distinct (storageObjects w) \<and>
         (\<forall>item \<in> set (filter (prefix ((''parkingSpots/'' @ spotId) @ ''/'')) (storageObjects w)).
            deleteFault item = None) \<longrightarrow>
           console w' = console w \<and>
           storageObjects w' =
             filter (\<lambda>p. \<not> prefix ((''parkingSpots/'' @ spotId) @ ''/'') p) (storageObjects w)))"
proof (intro conjI)
  show "case deleteSpot None spotId (w, st) of
      (r, w', st') \<Rightarrow>
        r = Inr () \<and>
        parkingSpotsCol w' = (parkingSpotsCol w)(spotId := None) \<and>
        spots st' = filter (\<lambda>spot. spot_id spot \<noteq> spotId) (spots st) \<and>
        userSpots st' = filter (\<lambda>spot. spot_id spot \<noteq> spotId) (userSpots st) \<and>
        calls w' = calls w @ [DeleteDoc spotId] \<and>
        storageObjects w' = storageObjects w \<and>
        console w' = console w"
    by (simp add: deleteSpot_def deleteParkingSpot_def deleteDoc_def issue_def filterSpots_def)
  show "case deleteSpot (Some e) spotId (w, st) of
      (r, w', st') \<Rightarrow>
        r = Inl (Error ''Failed to delete parking spot'') \<and>
        parkingSpotsCol w' = parkingSpotsCol w \<and>
        spots st' = spots st \<and> userSpots st' = userSpots st \<and>
        spots_error st' = Some ''Failed to delete parking spot'' \<and>
        calls w' = calls w @ [DeleteDoc spotId] \<and>
        storageObjects w' = storageObjects w \<and>
        console w' = console w @ [''Error deleting parking spot:'']"
    by (simp add: deleteSpot_def deleteParkingSpot_def deleteDoc_def issue_def consoleLog_def)
  let ?folder = "''parkingSpots/'' @ spotId"
  let ?items = "filter (prefix (?folder @ ''/'')) (storageObjects w)"
  let ?w1 = "issue (ListAll ?folder) w"
  let ?msg = "''Error deleting parking spot images:''"
  show "case deleteParkingSpotImages listFault deleteFault spotId w of
      (r, w') \<Rightarrow>
        r = Inr () \<and>
        parkingSpotsCol w' = parkingSpotsCol w \<and>
        (listFault \<noteq> None \<longrightarrow>
           console w' = console w @ [?msg] \<and>
           storageObjects w' = storageObjects w \<and>
           calls w' = calls w @ [ListAll ?folder]) \<and>
        (listFault = None \<longrightarrow>
           calls w' = calls w @ ListAll ?folder # map DeleteObject ?items) \<and>
        (listFault = None \<and> (\<exists>item \<in> set ?items. deleteFault item \<noteq> None) \<longrightarrow>
           console w' = console w @ [?msg]) \<and>
        (listFault = None \<and> distinct (storageObjects w) \<and>
         (\<forall>item \<in> set ?items. deleteFault item = None) \<longrightarrow>
           console w' = console w \<and>
           storageObjects w' = filter (\<lambda>p. \<not> prefix (?folder @ ''/'') p) (storageObjects w))"
  proof -
    define folder where "folder = ''parkingSpots/'' @ spotId"
    define items where "items = filter (prefix (folder @ ''/'')) (storageObjects w)"
    define msg where "msg = ''Error deleting parking spot images:''"
    define w1 where "w1 = issue (ListAll folder) w"
    obtain rs w2 where a: "deleteAll deleteFault items w1 = (rs, w2)"
      by (cases "deleteAll deleteFault items w1")
    have w2: "w2 = snd (deleteAll deleteFault items w1)"
      and rs: "rs = fst (deleteAll deleteFault items w1)"
      using a by simp_all
    have frame: "console w2 = console w" "parkingSpotsCol w2 = parkingSpotsCol w"
      "calls w2 = calls w @ ListAll folder # map DeleteObject items"
      using deleteAll_frame [of deleteFault items w1] by (simp_all add: w2 w1_def issue_def)
    have listed: "listAll None folder w = (Inr items, w1)"
      by (simp add: listAll_def items_def w1_def issue_def)
    have failed: "listAll (Some err) folder w = (Inl err, w1)" for err
      by (simp add: listAll_def w1_def)
    have w1: "console w1 = console w" "parkingSpotsCol w1 = parkingSpotsCol w"
      "storageObjects w1 = storageObjects w" "calls w1 = calls w @ [ListAll folder]"
      by (simp_all add: w1_def issue_def)
    have bad: "(\<exists>item \<in> set items. deleteFault item \<noteq> None) \<longrightarrow> (\<exists>err. rs = Inl err)"
      using deleteAll_fault [of _ items deleteFault w1] rs by blast
    have good: "distinct (storageObjects w) \<and> (\<forall>item \<in> set items. deleteFault item = None) \<longrightarrow>
        rs = Inr () \<and>
        storageObjects w2 = filter (\<lambda>p. \<not> prefix (folder @ ''/'') p) (storageObjects w)"
    proof (intro impI, elim conjE)
      assume d: "distinct (storageObjects w)" and n: "\<forall>item \<in> set items. deleteFault item = None"
      have "fst (deleteAll deleteFault items w1) = Inr () \<and>
            storageObjects (snd (deleteAll deleteFault items w1))
              = filter (\<lambda>p. p \<notin> set items) (storageObjects w1)"
        using d n by (intro deleteAll_ok) (auto simp add: items_def w1)
      moreover have "filter (\<lambda>p. p \<notin> set items) (storageObjects w1)
          = filter (\<lambda>p. \<not> prefix (folder @ ''/'') p) (storageObjects w)"
        by (auto simp add: items_def w1 intro: filter_cong)
      ultimately show "rs = Inr () \<and>
        storageObjects w2 = filter (\<lambda>p. \<not> prefix (folder @ ''/'') p) (storageObjects w)"
        by (simp add: rs w2)
    qed
    have "case deleteParkingSpotImages listFault deleteFault spotId w of
      (r, w') \<Rightarrow>
        r = Inr () \<and>
        parkingSpotsCol w' = parkingSpotsCol w \<and>
        (listFault \<noteq> None \<longrightarrow>
           console w' = console w @ [msg] \<and>
           storageObjects w' = storageObjects w \<and>
           calls w' = calls w @ [ListAll folder]) \<and>
        (listFault = None \<longrightarrow>
           calls w' = calls w @ ListAll folder # map DeleteObject items) \<and>
        (listFault = None \<and> (\<exists>item \<in> set items. deleteFault item \<noteq> None) \<longrightarrow>
           console w' = console w @ [msg]) \<and>
        (listFault = None \<and> distinct (storageObjects w) \<and>
         (\<forall>item \<in> set items. deleteFault item = None) \<longrightarrow>
           console w' = console w \<and>
           storageObjects w' = filter (\<lambda>p. \<not> prefix (folder @ ''/'') p) (storageObjects w))"
    proof (cases listFault)
      case (Some err)
      have "deleteParkingSpotImages listFault deleteFault spotId w = (Inr (), consoleLog msg w1)"
        unfolding deleteParkingSpotImages_def folder_def [symmetric] msg_def [symmetric]
        by (simp add: Some failed)
      then show ?thesis using Some w1 by (simp add: consoleLog_def)
    next
      case None
      show ?thesis
      proof (cases rs)
        case (Inl err)
        have "deleteParkingSpotImages listFault deleteFault spotId w = (Inr (), consoleLog msg w2)"
          unfolding deleteParkingSpotImages_def folder_def [symmetric] msg_def [symmetric]
          by (simp add: None listed a Inl)
        moreover have "\<not> (distinct (storageObjects w) \<and> (\<forall>item \<in> set items. deleteFault item = None))"
          using good Inl by blast
        ultimately show ?thesis using None frame by (simp add: consoleLog_def)
      next
        case (Inr u)
        have "deleteParkingSpotImages listFault deleteFault spotId w = (Inr (), w2)"
          unfolding deleteParkingSpotImages_def folder_def [symmetric] msg_def [symmetric]
          by (simp add: None listed a Inr)
        moreover have "\<not> (\<exists>item \<in> set items. deleteFault item \<noteq> None)"
          using bad Inr by blast
        moreover have "distinct (storageObjects w) \<and> (\<forall>item \<in> set items. deleteFault item = None)
            \<longrightarrow> storageObjects w2 = filter (\<lambda>p. \<not> prefix (folder @ ''/'') p) (storageObjects w)"
          using good by blast
        ultimately show ?thesis using None frame by simp
      qed
    qed
    then show ?thesis
      unfolding folder_def items_def msg_def by simp
  qed
qed

theorem deleteSpot_effects_witness:
  "fst (deleteSpot None ''spot1'' (world0, store0)) = Inr () \<and>
   parkingSpotsCol (fst (snd (deleteSpot None ''spot1'' (world0, store0)))) ''spot1'' = None \<and>
   spots (snd (snd (deleteSpot None ''spot1'' (world0, store0)))) = [spotEast] \<and>
   userSpots (snd (snd (deleteSpot None ''spot1'' (world0, store0)))) = [] \<and>
   fst (deleteParkingSpotImages None (\<lambda>item. Some (Error ''denied'')) ''spot1'' world0) = Inr () \<and>
   console (snd (deleteParkingSpotImages None (\<lambda>item. Some (Error ''denied'')) ''spot1'' world0))
     = [''Error deleting parking spot images:'']"
proof -
  have ids: "spot_id spotHere = ''spot1''" "spot_id spotEast = ''spot2''"
    by (simp_all add: spotHere_def spotEast_def)
  have w: "storageObjects world0 = [''parkingSpots/spot1/1700000000000_0.jpg'']" "console world0 = []"
    by (simp_all add: world0_def)
  show ?thesis
    using deleteSpot_effects [where spotId = "''spot1''" and w = world0 and st = store0
        and e = "Error ''unavailable''" and listFault = None
        and deleteFault = "\<lambda>item. Some (Error ''denied'')"]
    by (simp add: store0_def ids w case_prod_beta)
qed
text \<open>
  The listing \<open>spot1\<close> has one stored image. After a successful delete the image is still
  stored, and the delete of the document is the only call that was issued.
\<close>

theorem deleteSpot_no_image_cleanup:
  "storageObjects world0 = [''parkingSpots/spot1/1700000000000_0.jpg''] \<and>
   fst (deleteSpot None ''spot1'' (world0, store0)) = Inr () \<and>
   storageObjects (fst (snd (deleteSpot None ''spot1'' (world0, store0))))
     = [''parkingSpots/spot1/1700000000000_0.jpg''] \<and>
   calls (fst (snd (deleteSpot None ''spot1'' (world0, store0)))) = [DeleteDoc ''spot1'']"
  by (simp add: deleteSpot_def deleteParkingSpot_def deleteDoc_def issue_def world0_def)

subsection \<open>Update\<close>

lemma applyPayload_stripped:
  "d_id (applyPayload ((updateData dat)\<lparr>p_updatedAt := Some t\<rparr>) d) = d_id d"
  "d_createdAt (applyPayload ((updateData dat)\<lparr>p_updatedAt := Some t\<rparr>) d) = d_createdAt d"
  "d_updatedAt (applyPayload ((updateData dat)\<lparr>p_updatedAt := Some t\<rparr>) d) = Some t"
  by (simp_all add: applyPayload_def updateData_def ifPresentOpt_def)

lemma applyPayload_title_only:
  "applyPayload
     ((updateData (noFields\<lparr>p_id := i, p_createdAt := c, p_title := Some new\<rparr>))\<lparr>p_updatedAt := Some t\<rparr>) d
     = d\<lparr>d_title := new, d_updatedAt := Some t\<rparr>"
  by (simp add: applyPayload_def updateData_def noFields_def ifPresentOpt_def ifPresent_def)

lemma updateParkingSpot_ok:
  assumes "parkingSpotsCol w spotId = Some d"
  shows "updateParkingSpot None serverTime spotId dat w =
           (Inr (),
            (issue (UpdateDoc spotId ((updateData dat)\<lparr>p_updatedAt := Some serverTime\<rparr>)) w)
              \<lparr>parkingSpotsCol := (parkingSpotsCol w)(spotId \<mapsto>
                  applyPayload ((updateData dat)\<lparr>p_updatedAt := Some serverTime\<rparr>) d)\<rparr>)"
  using assms by (simp add: updateParkingSpot_def updateDoc_def issue_def)

text \<open>
  On the backend, the payload is the data without \<open>id\<close> and \<open>createdAt\<close> and with the
  server's update time: the stored document keeps its \<open>id\<close> field and its \<open>createdAt\<close>, and
  an update with \<open>{id, createdAt, title}\<close> changes its \<open>title\<close> and \<open>updatedAt\<close> only.
\<close>

lemma updateParkingSpot_strips:
  assumes "parkingSpotsCol w spotId = Some d"
  shows "\<exists>payload w'.
           updateParkingSpot None serverTime spotId dat w = (Inr (), w') \<and>
           calls w' = calls w @ [UpdateDoc spotId payload] \<and>
           payload = dat\<lparr>p_id := None, p_createdAt := None, p_updatedAt := Some serverTime\<rparr> \<and>
           parkingSpotsCol w' = (parkingSpotsCol w)(spotId \<mapsto> applyPayload payload d) \<and>
           d_id (applyPayload payload d) = d_id d \<and>
           d_createdAt (applyPayload payload d) = d_createdAt d \<and>
           d_updatedAt (applyPayload payload d) = Some serverTime \<and>
           (dat = noFields\<lparr>p_id := i, p_createdAt := c, p_title := Some new\<rparr> \<longrightarrow>
              applyPayload payload d = d\<lparr>d_title := new, d_updatedAt := Some serverTime\<rparr>)"
proof -
  let ?payload = "(updateData dat)\<lparr>p_updatedAt := Some serverTime\<rparr>"
  let ?w' = "(issue (UpdateDoc spotId ?payload) w)
              \<lparr>parkingSpotsCol := (parkingSpotsCol w)(spotId \<mapsto> applyPayload ?payload d)\<rparr>"
  have "updateParkingSpot None serverTime spotId dat w = (Inr (), ?w')"
    using assms by (rule updateParkingSpot_ok)
  moreover have "calls ?w' = calls w @ [UpdateDoc spotId ?payload]"
    by (simp add: issue_def)
  moreover have "?payload = dat\<lparr>p_id := None, p_createdAt := None, p_updatedAt := Some serverTime\<rparr>"
    by (simp add: updateData_def)
  moreover have "parkingSpotsCol ?w' = (parkingSpotsCol w)(spotId \<mapsto> applyPayload ?payload d)"
    by simp
  moreover have "dat = noFields\<lparr>p_id := i, p_createdAt := c, p_title := Some new\<rparr> \<longrightarrow>
      applyPayload ?payload d = d\<lparr>d_title := new, d_updatedAt := Some serverTime\<rparr>"
    using applyPayload_title_only by blast
  ultimately show ?thesis
    using applyPayload_stripped [where dat = dat and t = serverTime and d = d] by blast
qed

lemma world0_spot1: "parkingSpotsCol world0 ''spot1'' = Some docHere"
  by (simp add: world0_def)

lemma update_world0:
  "updateParkingSpot None 2000 ''spot1'' patch0 world0 =
     (Inr (),
      (issue (UpdateDoc ''spot1'' ((updateData patch0)\<lparr>p_updatedAt := Some 2000\<rparr>)) world0)
        \<lparr>parkingSpotsCol := (parkingSpotsCol world0)(''spot1'' \<mapsto>
            docHere\<lparr>d_title := ''New'', d_updatedAt := Some 2000\<rparr>)\<rparr>)"
  unfolding updateParkingSpot_ok [OF world0_spot1]
  by (simp add: patch0_def applyPayload_title_only)

lemma merge_patch0:
  "spot_id (mergeSpot spot patch0 t) = ''other''" "createdAt (mergeSpot spot patch0 t) = 5"
  by (simp_all add: mergeSpot_def patch0_def noFields_def ifPresent_def)

text \<open>
  C4. An update carrying \<open>{id, createdAt, title}\<close> should change only \<open>title\<close> and leave \<open>id\<close>
  and \<open>createdAt\<close> as they were. The service does strip the two fields, so the backend
  document keeps them (and gets the new title and the server's update time). The local
  merge of \<open>updateSpot\<close> spreads the data as it was passed, not the stripped data: after
  the update \<open>{id: "other", createdAt: 5, title: "New"}\<close> of the listing \<open>spot1\<close>, created at
  1000, the listing in both local views has the \<open>id\<close> \<open>other\<close> and the \<open>createdAt\<close> 5.
\<close>

theorem updateSpot_local_merge_unstripped:
  "spot_id spotHere = ''spot1'' \<and> createdAt spotHere = 1000 \<and>
   fst (updateSpot None 2000 2001 ''spot1'' patch0 (world0, store0)) = Inr () \<and>
   parkingSpotsCol (fst (snd (updateSpot None 2000 2001 ''spot1'' patch0 (world0, store0)))) ''spot1''
     = Some (docHere\<lparr>d_title := ''New'', d_updatedAt := Some 2000\<rparr>) \<and>
   d_id (docHere\<lparr>d_title := ''New'', d_updatedAt := Some 2000\<rparr>) = d_id docHere \<and>
   d_createdAt (docHere\<lparr>d_title := ''New'', d_updatedAt := Some 2000\<rparr>) = d_createdAt docHere \<and>
   map spot_id (spots (snd (snd (updateSpot None 2000 2001 ''spot1'' patch0 (world0, store0)))))
     = [''other'', ''spot2''] \<and>
   map createdAt (spots (snd (snd (updateSpot None 2000 2001 ''spot1'' patch0 (world0, store0)))))
     = [5, 900] \<and>
   map title (spots (snd (snd (updateSpot None 2000 2001 ''spot1'' patch0 (world0, store0)))))
     = [''New'', ''Garage''] \<and>
   map spot_id (userSpots (snd (snd (updateSpot None 2000 2001 ''spot1'' patch0 (world0, store0)))))
     = [''other''] \<and>
   map createdAt (userSpots (snd (snd (updateSpot None 2000 2001 ''spot1'' patch0 (world0, store0)))))
     = [5]"
proof -
  have ids: "spot_id spotHere = ''spot1''" "spot_id spotEast = ''spot2''"
    "createdAt spotEast = 900" "createdAt spotHere = 1000" "title spotEast = ''Garage''"
    by (simp_all add: spotHere_def spotEast_def)
  have u: "updateSpot None 2000 2001 ''spot1'' patch0 (world0, store0) =
      (Inr (),
       (issue (UpdateDoc ''spot1'' ((updateData patch0)\<lparr>p_updatedAt := Some 2000\<rparr>)) world0)
         \<lparr>parkingSpotsCol := (parkingSpotsCol world0)(''spot1'' \<mapsto>
             docHere\<lparr>d_title := ''New'', d_updatedAt := Some 2000\<rparr>)\<rparr>,
       store0\<lparr>spots := [mergeSpot spotHere patch0 2001, spotEast],
              userSpots := [mergeSpot spotHere patch0 2001]\<rparr>)"
    by (simp add: updateSpot_def update_world0 store0_def updateLocalSpots_def ids)
  have t: "title (mergeSpot spotHere patch0 2001) = ''New''"
    by (simp add: mergeSpot_def patch0_def noFields_def ifPresent_def)
  show ?thesis
    by (simp add: u merge_patch0 ids t)
qed

section \<open>SessionStore\<close>

subsection \<open>Sign-out\<close>

text \<open>
  C2, as the code has it. For every session state: when the remote sign-out succeeds,
  \<open>signOut\<close> ends with the user cleared; when it fails, the error is propagated and the
  user is left as it was. In both cases the loading flag is reset.
\<close>

theorem signOut_clears_on_success:
  "(case signOut None (w, st) of
      (r, w', st') \<Rightarrow> r = Inr () \<and> user st' = None \<and> \<not> auth_isLoading st') \<and>
   (case signOut (Some err) (w, st) of
      (r, w', st') \<Rightarrow>
        r = Inl (handleAuthError err) \<and> user st' = user st \<and> \<not> auth_isLoading st')"
  by (simp add: signOut_def auth_signOut_def)

theorem signOut_clears_on_success_witness:
  "fst (signOut None (world0, \<lparr>user = Some ann, auth_isLoading = False\<rparr>)) = Inr () \<and>
   user (snd (snd (signOut None (world0, \<lparr>user = Some ann, auth_isLoading = False\<rparr>)))) = None"
  using signOut_clears_on_success [where w = world0
      and st = "\<lparr>user = Some ann, auth_isLoading = False\<rparr>" and err = "Error ''offline''"]
  by (simp add: case_prod_beta)

text \<open>A signed-in user whose remote sign-out fails on the network is still signed in.\<close>

theorem signOut_failure_keeps_user:
  "fst (signOut (Some (JsError (Some ''auth/network-request-failed'') ''offline''))
          (world0, \<lparr>user = Some ann, auth_isLoading = False\<rparr>))
     = Inl (Error ''Network error. Please check your connection.'') \<and>
   user (snd (snd (signOut (Some (JsError (Some ''auth/network-request-failed'') ''offline''))
          (world0, \<lparr>user = Some ann, auth_isLoading = False\<rparr>))))
     = Some ann"
  by (simp add: signOut_def auth_signOut_def handleAuthError_def)

subsection \<open>Sign-in\<close>

text \<open>
  C7, as the code has it. For every email/password sign-in whose authentication succeeds
  while the backend has no record of the identity: when the write of the record meets no
  fault, the operation persists and returns a default record whose role is \<open>user\<close> and
  whose name is the auth provider's display name or, when that is absent or empty, the
  part of the email before the first \<open>@\<close>; when the write fails, the sign-in fails with
  the mapped error and the backend is left without the record. Whenever a sign-in returns,
  it returns a record of the authenticated identity, and the backend has a record of it.
\<close>

theorem signIn_default_record:
  "(authResult = Inr firebaseUser \<and> usersCol w (fu_uid firebaseUser) = None \<longrightarrow>
      (setFault = None \<longrightarrow>
         fst (signIn authResult getFault setFault now serverTime e password w) =
           Inr \<lparr> uid = fu_uid firebaseUser,
                 email = (case fu_email firebaseUser of
                            None \<Rightarrow> e | Some m \<Rightarrow> if m = [] then e else m),
                 name = (case fu_displayName firebaseUser of
                           None \<Rightarrow> takeWhile (\<lambda>c. c \<noteq> CHR ''@'') e
                         | Some n \<Rightarrow> if n = [] then takeWhile (\<lambda>c. c \<noteq> CHR ''@'') e else n),
                 role = USER, photoURL = None, phone = None,
                 user_createdAt = now, user_updatedAt = now \<rparr> \<and>
         usersCol (snd (signIn authResult getFault setFault now serverTime e password w)) =
           (usersCol w)(fu_uid firebaseUser \<mapsto>
              \<lparr> ud_email = (case fu_email firebaseUser of
                               None \<Rightarrow> e | Some m \<Rightarrow> if m = [] then e else m),
                ud_name = (case fu_displayName firebaseUser of
                             None \<Rightarrow> takeWhile (\<lambda>c. c \<noteq> CHR ''@'') e
                           | Some n \<Rightarrow> if n = [] then takeWhile (\<lambda>c. c \<noteq> CHR ''@'') e else n),
                ud_role = USER, ud_photoURL = None, ud_phone = None,
                ud_createdAt = Some serverTime, ud_updatedAt = Some serverTime \<rparr>)) \<and>
      (setFault = Some err \<longrightarrow>
         fst (signIn authResult getFault setFault now serverTime e password w) =
           Inl (handleAuthError err) \<and>
         usersCol (snd (signIn authResult getFault setFault now serverTime e password w)) =
           usersCol w)) \<and>
   (signIn authResult getFault setFault now serverTime e password w = (Inr u, w') \<longrightarrow>
      (\<exists>fu. authResult = Inr fu \<and> uid u = fu_uid fu) \<and> usersCol w' (uid u) \<noteq> None)"
proof (intro conjI impI)
  assume a: "authResult = Inr firebaseUser \<and> usersCol w (fu_uid firebaseUser) = None"
  then have g: "fst (getUserData getFault now (fu_uid firebaseUser) w1) = None"
    if "usersCol w1 = usersCol w" for w1
    using that
    by (simp add: getUserData_def getUserDoc_def issue_def Let_def split: option.splits)
  {
    assume s: "setFault = None"
    show "fst (signIn authResult getFault setFault now serverTime e password w) =
           Inr \<lparr> uid = fu_uid firebaseUser,
                 email = (case fu_email firebaseUser of
                            None \<Rightarrow> e | Some m \<Rightarrow> if m = [] then e else m),
                 name = (case fu_displayName firebaseUser of
                           None \<Rightarrow> takeWhile (\<lambda>c. c \<noteq> CHR ''@'') e
                         | Some n \<Rightarrow> if n = [] then takeWhile (\<lambda>c. c \<noteq> CHR ''@'') e else n),
                 role = USER, photoURL = None, phone = None,
                 user_createdAt = now, user_updatedAt = now \<rparr>"
      using a s
      by (simp add: signIn_def signInWithEmailAndPassword_def getUserData_def getUserDoc_def
          setUserDoc_def issue_def consoleLog_def Let_def orElse_def localPart_def
          split: option.splits)
    show "usersCol (snd (signIn authResult getFault setFault now serverTime e password w)) =
           (usersCol w)(fu_uid firebaseUser \<mapsto>
              \<lparr> ud_email = (case fu_email firebaseUser of
                               None \<Rightarrow> e | Some m \<Rightarrow> if m = [] then e else m),
                ud_name = (case fu_displayName firebaseUser of
                             None \<Rightarrow> takeWhile (\<lambda>c. c \<noteq> CHR ''@'') e
                           | Some n \<Rightarrow> if n = [] then takeWhile (\<lambda>c. c \<noteq> CHR ''@'') e else n),
                ud_role = USER, ud_photoURL = None, ud_phone = None,
                ud_createdAt = Some serverTime, ud_updatedAt = Some serverTime \<rparr>)"
      using a s
      by (simp add: signIn_def signInWithEmailAndPassword_def getUserData_def getUserDoc_def
          setUserDoc_def issue_def consoleLog_def Let_def orElse_def localPart_def
          split: option.splits)
  }
  {
    assume s: "setFault = Some err"
    show "fst (signIn authResult getFault setFault now serverTime e password w) =
           Inl (handleAuthError err)"
      using a s
      by (simp add: signIn_def signInWithEmailAndPassword_def getUserData_def getUserDoc_def
          setUserDoc_def issue_def consoleLog_def Let_def split: option.splits)
    show "usersCol (snd (signIn authResult getFault setFault now serverTime e password w)) =
           usersCol w"
      using a s
      by (simp add: signIn_def signInWithEmailAndPassword_def getUserData_def getUserDoc_def
          setUserDoc_def issue_def consoleLog_def Let_def split: option.splits)
  }
next
  assume r: "signIn authResult getFault setFault now serverTime e password w = (Inr u, w')"
  then show "\<exists>fu. authResult = Inr fu \<and> uid u = fu_uid fu"
    by (cases authResult)
      (auto simp add: signIn_def signInWithEmailAndPassword_def getUserData_def getUserDoc_def
        setUserDoc_def issue_def consoleLog_def Let_def
        split: option.splits sum.splits prod.splits if_splits)
  from r show "usersCol w' (uid u) \<noteq> None"
    by (cases authResult)
      (auto simp add: signIn_def signInWithEmailAndPassword_def getUserData_def getUserDoc_def
        setUserDoc_def issue_def consoleLog_def Let_def
        split: option.splits sum.splits prod.splits if_splits)
qed

text \<open>
  Ann signs in with \<open>ann@example.com\<close> while the backend has no record of her. Without a
  display name at the auth provider she gets the name \<open>ann\<close>; with the display name
  \<open>Ann Lee\<close> she gets that name. In both cases the role is \<open>user\<close>.
\<close>

theorem signIn_default_record_witness:
  "usersCol world0 ''ann'' = None \<and>
   fst (signIn (Inr annAuth) None None 3000 3001 ''ann@example.com'' ''secret'' world0)
     = Inr \<lparr> uid = ''ann'', email = ''ann@example.com'', name = ''ann'', role = USER,
             photoURL = None, phone = None, user_createdAt = 3000, user_updatedAt = 3000 \<rparr> \<and>
   usersCol (snd (signIn (Inr annAuth) None None 3000 3001 ''ann@example.com'' ''secret'' world0)) ''ann''
     = Some \<lparr> ud_email = ''ann@example.com'', ud_name = ''ann'', ud_role = USER,
              ud_photoURL = None, ud_phone = None,
              ud_createdAt = Some 3001, ud_updatedAt = Some 3001 \<rparr> \<and>
   fst (signIn (Inr (annAuth\<lparr>fu_displayName := Some ''Ann Lee''\<rparr>)) None None 3000 3001
          ''ann@example.com'' ''secret'' world0)
     = Inr \<lparr> uid = ''ann'', email = ''ann@example.com'', name = ''Ann Lee'', role = USER,
             photoURL = None, phone = None, user_createdAt = 3000, user_updatedAt = 3000 \<rparr>"
proof -
  have absent: "usersCol world0 ''ann'' = None" by (simp add: world0_def)
  have f: "fu_uid annAuth = ''ann''" "fu_email annAuth = Some ''ann@example.com''"
    "fu_displayName annAuth = None"
    by (simp_all add: annAuth_def)
  note t1 = signIn_default_record
    [where authResult = "Inr annAuth" and firebaseUser = annAuth and getFault = None
       and setFault = None and now = 3000 and serverTime = 3001 and e = "''ann@example.com''"
       and password = "''secret''" and w = world0]
  note t2 = signIn_default_record
    [where authResult = "Inr (annAuth\<lparr>fu_displayName := Some ''Ann Lee''\<rparr>)"
       and firebaseUser = "annAuth\<lparr>fu_displayName := Some ''Ann Lee''\<rparr>" and getFault = None
       and setFault = None and now = 3000 and serverTime = 3001 and e = "''ann@example.com''"
       and password = "''secret''" and w = world0]
  show ?thesis
    using conjunct1 [OF t1] conjunct1 [OF t2] absent
    by (simp add: f)
qed

text \<open>
  Ann is authenticated and the backend has no record of her, but the write of the new
  record is refused: the sign-in fails, no record is returned and none is persisted.
\<close>

theorem signIn_write_refused:
  "usersCol world0 ''ann'' = None \<and>
   fst (signIn (Inr annAuth) None
          (Some (JsError (Some ''permission-denied'') ''Missing or insufficient permissions.''))
          3000 3001 ''ann@example.com'' ''secret'' world0)
     = Inl (Error ''Missing or insufficient permissions.'') \<and>
   usersCol (snd (signIn (Inr annAuth) None
          (Some (JsError (Some ''permission-denied'') ''Missing or insufficient permissions.''))
          3000 3001 ''ann@example.com'' ''secret'' world0)) ''ann''
     = None"
  by (simp add: signIn_def signInWithEmailAndPassword_def getUserData_def getUserDoc_def
      setUserDoc_def issue_def consoleLog_def Let_def annAuth_def world0_def handleAuthError_def)

section \<open>LocationSession\<close>

lemma readPosition_geocode_failed:
  assumes geo: "reverseGeocode env = Inl geocodeError"
    and pos: "getPositionWithTimeout env = Inr p \<or>
              (getPositionWithTimeout env = Inl err \<and> getLastKnownPosition env = Inr (Some p))"
  shows "fst (readPosition env st) = Some (point (c_latitude p) (c_longitude p)) \<and>
         userLocation (snd (readPosition env st)) = Some (point (c_latitude p) (c_longitude p)) \<and>
         loc_error (snd (readPosition env st)) = loc_error st \<and>
         \<not> loc_isLoading (snd (readPosition env st))"
  using pos geo
  by (auto simp add: readPosition_def withAddress_def point_def)

text \<open>
  C8. When the permission is granted (at once, or on request) and a position is obtained
  (live, or the last known one after the live read failed or timed out), a failure of the
  reverse geocoding does not fail the request: the point is returned and stored as the
  user's location, with address, city, state and postal code absent, and no error is set.
\<close>

theorem getCurrentLocation_geocode_failure:
  assumes perm: "getForegroundPermissions env = Inr (status, canAskAgain)"
    and granted: "status = Granted \<or> (canAskAgain \<and> requestForegroundPermissions env = Inr Granted)"
    and pos: "getPositionWithTimeout env = Inr p \<or>
              (getPositionWithTimeout env = Inl err \<and> getLastKnownPosition env = Inr (Some p))"
    and geo: "reverseGeocode env = Inl geocodeError"
  shows "fst (getCurrentLocation env st) =
           Some \<lparr> latitude = c_latitude p, longitude = c_longitude p,
                  address = None, city = None, state = None, zipCode = None \<rparr> \<and>
         userLocation (snd (getCurrentLocation env st)) = fst (getCurrentLocation env st) \<and>
         loc_error (snd (getCurrentLocation env st)) = None \<and>
         \<not> loc_isLoading (snd (getCurrentLocation env st))"
proof -
  let ?st = "st\<lparr>loc_isLoading := True, loc_error := None\<rparr>"
  have "getCurrentLocation env st = readPosition env ?st"
    using perm granted
    by (auto simp add: getCurrentLocation_def requestPermission_def Let_def)
  then show ?thesis
    using readPosition_geocode_failed [OF geo pos, of ?st] by (simp add: point_def)
qed

theorem getCurrentLocation_geocode_failure_witness:
  "reverseGeocode device0 = Inl (Error ''geocoder unavailable'') \<and>
   fst (getCurrentLocation device0 session0) = Some (point 0 (1 / 10)) \<and>
   userLocation (snd (getCurrentLocation device0 session0)) = Some (point 0 (1 / 10))"
proof -
  have perm: "getForegroundPermissions device0 = Inr (Granted, True)"
    and geo: "reverseGeocode device0 = Inl (Error ''geocoder unavailable'')"
    and pos: "getPositionWithTimeout device0 = Inr \<lparr> c_latitude = 0, c_longitude = 1 / 10 \<rparr> \<or>
              (getPositionWithTimeout device0 = Inl (Error '''') \<and>
               getLastKnownPosition device0 = Inr (Some \<lparr> c_latitude = 0, c_longitude = 1 / 10 \<rparr>))"
    by (simp_all add: device0_def getPositionWithTimeout_def)
  have g: "Granted = Granted \<or> (True \<and> requestForegroundPermissions device0 = Inr Granted)"
    by simp
  show ?thesis
    using getCurrentLocation_geocode_failure [OF perm g pos geo, of session0] geo
    by (simp add: point_def)
qed

end
